theory Spec2Isabelle
  imports Complex_Main "HOL-Library.List_Lexorder" "HOL-Library.Char_ord" "HOL-Library.Sublist"
    "HOL-Library.Log_Nat"
begin

section \<open>Data model\<close>

text \<open>
  The enums and records of \<^verbatim>\<open>backend/models.py\<close>, as the two modules
  \<^verbatim>\<open>analysismodel.py\<close> and \<^verbatim>\<open>session_tracking.py\<close> use them.
  A Python float is a rational that stands for the double nearest to it (\<open>double_of\<close>
  below, ties to the even mantissa): a division is written exactly and stands for its
  correctly rounded double, \<^verbatim>\<open>max\<close> and \<^verbatim>\<open>min\<close> commute with the rounding,
  and \<^verbatim>\<open>round\<close> and the comparisons with 0.1 and 0.3, which are not doubles, take
  the double. The infinities and not-a-number are left out. A string is the list of the
  bytes of its UTF-8 encoding.
\<close>

text \<open>Modelled from the spec: the enum \<^verbatim>\<open>RiskTier\<close> of models.py, members in the
  order of the severity table \<^verbatim>\<open>_RISK_SEVERITY\<close>.\<close>
datatype RiskTier = OK | CAUTION | HIGH | CRISIS

text \<open>Modelled from the spec: the enums \<^verbatim>\<open>SentimentBand\<close>, \<^verbatim>\<open>SenderRole\<close> and
  \<^verbatim>\<open>SessionStatus\<close> of models.py.\<close>
datatype SentimentBand = POSITIVE | NEUTRAL | NEGATIVE
datatype SenderRole = USER | ASSISTANT
datatype SessionStatus = ACTIVE | ENDED

text \<open>Modelled from the spec: the dataclass \<^verbatim>\<open>SentimentResult\<close> of models.py
  (fields score, band, tokens).\<close>
record SentimentResult =
  s_score :: rat
  s_band :: SentimentBand
  s_tokens :: "string list"

text \<open>\<^verbatim>\<open>_RISK_SEVERITY\<close> (and \<^verbatim>\<open>RISK_SEVERITY\<close> of session_tracking.py, the same table).\<close>
fun RISK_SEVERITY :: "RiskTier \<Rightarrow> nat" where
  "RISK_SEVERITY OK = 0"
| "RISK_SEVERITY CAUTION = 1"
| "RISK_SEVERITY HIGH = 2"
| "RISK_SEVERITY CRISIS = 3"

section \<open>Tokens\<close>

text \<open>\<^verbatim>\<open>_WORD_RE = re.compile(r"[a-zA-Z']+")\<close>: the character class.\<close>
definition is_word_char :: "char \<Rightarrow> bool" where
  "is_word_char c =
     (let n = (of_char c :: nat)
      in (97 \<le> n \<and> n \<le> 122) \<or> (65 \<le> n \<and> n \<le> 90) \<or> n = 39)"

text \<open>\<^verbatim>\<open>_WORD_RE.findall\<close>: the maximal runs of word characters, left to right.
  The first argument holds the run being read, reversed.\<close>
fun findall_run :: "string \<Rightarrow> string \<Rightarrow> string list" where
  "findall_run cur [] = (if cur = [] then [] else [rev cur])"
| "findall_run cur (c # cs) =
     (if is_word_char c then findall_run (c # cur) cs
      else if cur = [] then findall_run [] cs
      else rev cur # findall_run [] cs)"

definition findall :: "string \<Rightarrow> string list" where
  "findall text = findall_run [] text"

text \<open>The characters (code points) of a string: each byte that is not a continuation
  byte (\<open>0x80\<close> to \<open>0xBF\<close>) starts a character. The first argument holds the
  character being read, reversed.\<close>
definition is_continuation :: "char \<Rightarrow> bool" where
  "is_continuation c = (let n = (of_char c :: nat) in 128 \<le> n \<and> n \<le> 191)"

fun utf8_run :: "string \<Rightarrow> string \<Rightarrow> string list" where
  "utf8_run cur [] = (if cur = [] then [] else [rev cur])"
| "utf8_run cur (c # cs) =
     (if is_continuation c \<or> cur = [] then utf8_run (c # cur) cs
      else rev cur # utf8_run [c] cs)"

definition utf8_chars :: "string \<Rightarrow> string list" where
  "utf8_chars s = utf8_run [] s"

text \<open>\<^verbatim>\<open>str.lower\<close>. Besides the letters A to Z, two characters have ASCII letters
  in their lower case: the Kelvin sign U+212A becomes k, and U+0130 becomes i followed by
  U+0307. Every other character that \<^verbatim>\<open>str.lower\<close> changes is outside ASCII before
  and after; the code compares lowered text with ASCII words only and never returns it,
  so these are left as they are.\<close>
definition lower_char :: "string \<Rightarrow> string" where
  "lower_char c =
     (if c = [CHR 0xE2, CHR 0x84, CHR 0xAA] then ''k''
      else if c = [CHR 0xC4, CHR 0xB0] then [CHR ''i'', CHR 0xCC, CHR 0x87]
      else
        (case c of
           [a] \<Rightarrow>
             (let n = (of_char a :: nat)
              in if 65 \<le> n \<and> n \<le> 90 then [char_of (n + 32)] else c)
         | _ \<Rightarrow> c))"

definition lower :: "string \<Rightarrow> string" where
  "lower s = concat (map lower_char (utf8_chars s))"

section \<open>SentimentAnalyzer\<close>

text \<open>The three lexicons are Python sets; only membership in them is used.\<close>

definition POSITIVE_WORDS :: "string list" where
  "POSITIVE_WORDS =
     [''calm'', ''hope'', ''relief'', ''grateful'', ''progress'', ''better'', ''supported'',
      ''proud'', ''strong'', ''encouraged'', ''improving'', ''relaxed'']"

definition NEGATIVE_WORDS :: "string list" where
  "NEGATIVE_WORDS =
     [''sad'', ''angry'', ''upset'', ''anxious'', ''stressed'', ''scared'', ''lonely'',
      ''hopeless'', ''worthless'', ''tired'', ''empty'', ''numb'', ''depressed'', ''afraid'',
      ''ashamed'', ''guilty'', ''fail'', ''failure'', ''broken'', ''hurt'']"

definition NEGATIONS :: "string list" where
  "NEGATIONS = [''not'', ''never'', ''no'', ''hardly'', ''barely'']"

text \<open>The body of the loop \<^verbatim>\<open>for idx, token in enumerate(tokens)\<close>; the state is
  (score, total', matched_tokens). The read \<^verbatim>\<open>tokens[idx - 1]\<close> is guarded by
  \<^verbatim>\<open>idx > 0\<close> and \<^verbatim>\<open>idx\<close> is an index of \<^verbatim>\<open>tokens\<close>, so it is in range.\<close>
definition score_step ::
  "string list \<Rightarrow> int \<times> nat \<times> string list \<Rightarrow> nat \<times> string \<Rightarrow> int \<times> nat \<times> string list" where
  "score_step tokens st it =
     (case st of (score, total', matched_tokens) \<Rightarrow>
      case it of (idx, token) \<Rightarrow>
        if token \<in> set POSITIVE_WORDS then
          (let modifier = (if idx > 0 \<and> tokens ! (idx - 1) \<in> set NEGATIONS then - 1 else 1)
           in (score + modifier, total' + 1, matched_tokens @ [token]))
        else if token \<in> set NEGATIVE_WORDS then
          (let modifier = (if idx > 0 \<and> tokens ! (idx - 1) \<in> set NEGATIONS then - 1 else 1)
           in (score - modifier, total' + 1, matched_tokens @ [token]))
        else (score, total', matched_tokens))"

definition score_loop :: "string list \<Rightarrow> int \<times> nat \<times> string list" where
  "score_loop tokens = foldl (score_step tokens) (0, 0, []) (enumerate 0 tokens)"

text \<open>Rounding to the nearest integer, a tie to the even one.\<close>
definition round_half_even :: "rat \<Rightarrow> int" where
  "round_half_even y =
     (let f = \<lfloor>y\<rfloor>; d = y - of_int f
      in if d < 1 / 2 then f else if 1 / 2 < d then f + 1
         else if even f then f else f + 1)"

text \<open>The double (IEEE 754 binary64) nearest to a rational: with \<open>e\<close> the exponent of
  \<open>x\<close>, not below that of the subnormal numbers, the doubles around \<open>x\<close> are the
  multiples of \<open>2 ^ (e - 52)\<close>.\<close>
definition pow2 :: "int \<Rightarrow> rat" where
  "pow2 k = (if 0 \<le> k then 2 ^ nat k else 1 / 2 ^ nat (- k))"

definition floor_log2 :: "rat \<Rightarrow> int" where
  "floor_log2 x =
     (case quotient_of x of (p, q) \<Rightarrow>
        let k = bitlen p - bitlen q
        in if pow2 k \<le> x then k else k - 1)"

definition double_of :: "rat \<Rightarrow> rat" where
  "double_of x =
     (if x = 0 then 0
      else
        let e = max (floor_log2 \<bar>x\<bar>) (- 1022);
            u = pow2 (e - 52)
        in of_int (round_half_even (x / u)) * u)"

text \<open>Python's \<^verbatim>\<open>round(x, 3)\<close>: the exact value of the double, to the nearest
  multiple of 1/1000, a tie to the even one.\<close>
definition round3 :: "rat \<Rightarrow> rat" where
  "round3 x = of_int (round_half_even (double_of x * 1000)) / 1000"

definition band_of :: "rat \<Rightarrow> SentimentBand" where
  "band_of normalized =
     (if double_of normalized > double_of (1 / 10) then POSITIVE
      else if double_of normalized < double_of (- (1 / 10)) then NEGATIVE
      else NEUTRAL)"

text \<open>\<^verbatim>\<open>SentimentAnalyzer.score\<close>.\<close>
definition sentiment_score :: "string \<Rightarrow> SentimentResult" where
  "sentiment_score text =
     (let tokens = map lower (findall text) in
      case score_loop tokens of (score, total', matched_tokens) \<Rightarrow>
        let normalized = (if total' \<noteq> 0 then of_int score / of_nat total' else 0)
        in \<lparr> s_score = round3 normalized, s_band = band_of normalized,
             s_tokens = matched_tokens \<rparr>)"

section \<open>Values returned by collaborators\<close>

text \<open>
  The external risk model returns an arbitrary Python object, and the classifier inspects
  it with \<^verbatim>\<open>isinstance\<close>, truthiness, \<^verbatim>\<open>str\<close>, \<^verbatim>\<open>float\<close> and iteration.
  The objects it can tell apart are modelled by \<open>pyval\<close>.
\<close>

datatype pyval =
    PyNone
  | PyBool bool
  | PyInt int
  | PyFloat rat
  | PyStr string
  | PyList "pyval list"
  | PyTuple "pyval list"
  | PyDict "(pyval \<times> pyval) list"

text \<open>The built-ins of the Python runtime that the code calls and that are not spelled
  out here: \<^verbatim>\<open>str(v)\<close> of a value that is not a string, \<^verbatim>\<open>float(s)\<close> of a string
  (\<open>None\<close> when it raises \<^verbatim>\<open>ValueError\<close>), the order in which a \<^verbatim>\<open>set\<close> of
  strings holding the given elements is iterated, and \<^verbatim>\<open>sum\<close> of a list of floats,
  whose rounding differs between versions of the interpreter.\<close>
record py_runtime =
  py_str :: "pyval \<Rightarrow> string"
  py_float_of_str :: "string \<Rightarrow> rat option"
  set_iter :: "string list \<Rightarrow> string list"
  py_sum :: "rat list \<Rightarrow> rat"

text \<open>Exceptions as values. The first two are the errors of session_tracking.py, with
  the session id of their message; the others are the built-in exceptions that can leave
  the classifier.\<close>
datatype error =
    SessionNotFound string
  | SessionClosed string
  | TypeError
  | ValueError
  | OverflowError

text \<open>The outcome of calling a collaborator: it raises an \<^verbatim>\<open>Exception\<close> (kept as
  the text \<^verbatim>\<open>str(exc)\<close>) or returns.\<close>
datatype 'a outcome = Raises string | Returns 'a

text \<open>Truthiness (\<^verbatim>\<open>if not label\<close>, \<^verbatim>\<open>a or b\<close>, \<^verbatim>\<open>if note\<close>).\<close>
fun truthy :: "pyval \<Rightarrow> bool" where
  "truthy PyNone = False"
| "truthy (PyBool b) = b"
| "truthy (PyInt i) = (i \<noteq> 0)"
| "truthy (PyFloat f) = (f \<noteq> 0)"
| "truthy (PyStr s) = (s \<noteq> [])"
| "truthy (PyList xs) = (xs \<noteq> [])"
| "truthy (PyTuple xs) = (xs \<noteq> [])"
| "truthy (PyDict kvs) = (kvs \<noteq> [])"

definition py_or :: "pyval \<Rightarrow> pyval \<Rightarrow> pyval" where
  "py_or a b = (if truthy a then a else b)"

text \<open>\<^verbatim>\<open>raw.get(key, default)\<close>; \<^verbatim>\<open>raw.get(key)\<close> is \<open>dict_get raw key PyNone\<close>.\<close>
definition dict_get :: "(pyval \<times> pyval) list \<Rightarrow> string \<Rightarrow> pyval \<Rightarrow> pyval" where
  "dict_get raw key dflt =
     (case map_of raw (PyStr key) of None \<Rightarrow> dflt | Some v \<Rightarrow> v)"

definition str_of :: "py_runtime \<Rightarrow> pyval \<Rightarrow> string" where
  "str_of rt v = (case v of PyStr s \<Rightarrow> s | _ \<Rightarrow> py_str rt v)"

text \<open>\<^verbatim>\<open>str.strip()\<close>: the whitespace characters of Unicode, by their encodings
  (U+0009 to U+000D, U+001C to U+0020, U+0085, U+00A0, U+1680, U+2000 to U+200A, U+2028,
  U+2029, U+202F, U+205F, U+3000), are removed from both ends.\<close>
definition is_space :: "string \<Rightarrow> bool" where
  "is_space c =
     (case c of
        [a] \<Rightarrow>
          (let n = (of_char a :: nat) in (9 \<le> n \<and> n \<le> 13) \<or> (28 \<le> n \<and> n \<le> 32))
      | [a, b] \<Rightarrow> a = CHR 0xC2 \<and> (b = CHR 0x85 \<or> b = CHR 0xA0)
      | [a, b, d] \<Rightarrow>
          (let n = (of_char d :: nat)
           in (a = CHR 0xE1 \<and> b = CHR 0x9A \<and> d = CHR 0x80)
              \<or> (a = CHR 0xE2 \<and> b = CHR 0x80
                  \<and> ((128 \<le> n \<and> n \<le> 138) \<or> n = 168 \<or> n = 169 \<or> n = 175))
              \<or> (a = CHR 0xE2 \<and> b = CHR 0x81 \<and> d = CHR 0x9F)
              \<or> (a = CHR 0xE3 \<and> b = CHR 0x80 \<and> d = CHR 0x80))
      | _ \<Rightarrow> False)"

definition strip :: "string \<Rightarrow> string" where
  "strip s = concat (rev (dropWhile is_space (rev (dropWhile is_space (utf8_chars s)))))"

text \<open>Modelled from the spec: \<^verbatim>\<open>RiskTier.value\<close> of models.py, the labels that
  \<^verbatim>\<open>_tier_from_label\<close> maps back to the members.\<close>
fun tier_value :: "RiskTier \<Rightarrow> string" where
  "tier_value OK = ''ok''"
| "tier_value CAUTION = ''caution''"
| "tier_value HIGH = ''high''"
| "tier_value CRISIS = ''crisis''"

section \<open>Module functions of analysismodel.py\<close>

definition tier_from_label :: "py_runtime \<Rightarrow> pyval \<Rightarrow> RiskTier" where
  "tier_from_label rt label =
     (if \<not> truthy label then OK
      else
        let normalized = lower (strip (str_of rt label));
            mapping = [(''ok'', OK), (''caution'', CAUTION), (''high'', HIGH), (''crisis'', CRISIS)]
        in case map_of mapping normalized of None \<Rightarrow> OK | Some t \<Rightarrow> t)"

text \<open>\<^verbatim>\<open>float(value)\<close>. An int too large for a double raises \<^verbatim>\<open>OverflowError\<close>;
  \<^verbatim>\<open>None\<close>, lists, tuples and dicts raise \<^verbatim>\<open>TypeError\<close>.\<close>
fun py_float :: "py_runtime \<Rightarrow> pyval \<Rightarrow> error + rat" where
  "py_float rt (PyFloat f) = Inr f"
| "py_float rt (PyInt i) =
     (if \<bar>i\<bar> \<ge> 2 ^ 1024 - 2 ^ 970 then Inl OverflowError else Inr (of_int i))"
| "py_float rt (PyBool b) = Inr (if b then 1 else 0)"
| "py_float rt (PyStr s) =
     (case py_float_of_str rt s of None \<Rightarrow> Inl ValueError | Some f \<Rightarrow> Inr f)"
| "py_float rt v = Inl TypeError"

text \<open>\<^verbatim>\<open>_normalize_score\<close>: only \<^verbatim>\<open>TypeError\<close> and \<^verbatim>\<open>ValueError\<close> are caught.\<close>
definition normalize_score :: "py_runtime \<Rightarrow> pyval \<Rightarrow> error + rat" where
  "normalize_score rt v =
     (case py_float rt v of
        Inl TypeError \<Rightarrow> Inr 0
      | Inl ValueError \<Rightarrow> Inr 0
      | Inl e \<Rightarrow> Inl e
      | Inr score \<Rightarrow>
          let score = (if score > 1 then score / 3 else score)
          in Inr (max 0 (min 1 score)))"

section \<open>RiskClassifier\<close>

text \<open>Modelled from the spec: the dataclass \<^verbatim>\<open>RiskAssessment\<close> of models.py
  (fields tier, score, flagged_keywords, notes).\<close>
record RiskAssessment =
  r_tier :: RiskTier
  r_score :: rat
  r_flagged_keywords :: "string list"
  r_notes :: "string list"

text \<open>A \<^verbatim>\<open>RiskAdapter\<close> is a callable of the text and the sentiment; \<open>a_name\<close> is
  \<^verbatim>\<open>getattr(adapter, '__name__', repr(adapter))\<close>.\<close>
record RiskAdapter =
  a_name :: string
  a_call :: "string \<Rightarrow> SentimentResult \<Rightarrow> RiskAssessment option outcome"

text \<open>The external risk model, \<^verbatim>\<open>self._rag_module\<close>: \<open>None\<close> when the import of
  \<^verbatim>\<open>backend.core.risk_types\<close> failed and none was passed in, else the table of its
  callable attributes.\<close>
type_synonym rag_module = "string \<Rightarrow> (string \<Rightarrow> pyval outcome) option"

record RiskClassifier =
  adapters :: "RiskAdapter list"
  rag_module :: "rag_module option"

text \<open>The keyword tables are Python sets: the lists give their elements, and the order in
  which the code iterates them is \<open>set_iter\<close> of the runtime.\<close>

definition CRISIS_PHRASES :: "string list" where
  "CRISIS_PHRASES =
     [''kill myself'', ''end my life'', ''suicide'', ''take my life'', ''hurt myself'',
      ''want to die'', ''ending it all'']"

definition HIGH_KEYWORDS :: "string list" where
  "HIGH_KEYWORDS =
     [''cut'', ''self-harm'', ''jump'', ''overdose'', ''plan'', ''no reason'',
      ''can'' @ [CHR 0x27] @ ''t go on'', ''die'']"

definition CAUTION_KEYWORDS :: "string list" where
  "CAUTION_KEYWORDS =
     [''numb'', ''worthless'', ''hopeless'', ''empty'', ''lost'', ''alone'', ''tired'',
      ''fail'', ''failure'', ''break'', ''breaking'', ''drowning'', ''spiral'', ''panic'',
      ''overwhelmed'', ''burnout'', ''grief'', ''insomnia'']"

record resource =
  res_type :: string
  res_label :: string
  res_link :: string

definition RESOURCE_MAP :: "(string \<times> resource) list" where
  "RESOURCE_MAP =
     [(''suicide'', \<lparr>res_type = ''hotline'', res_label = ''988 Suicide & Crisis Lifeline'',
         res_link = ''tel:988''\<rparr>),
      (''hurt myself'', \<lparr>res_type = ''hotline'', res_label = ''Crisis Text Line'',
         res_link = ''sms:741741''\<rparr>),
      (''hopeless'', \<lparr>res_type = ''article'',
         res_label = ''Grounding exercise: 5-4-3-2-1 method'',
         res_link = ''https://www.healthline.com/health/grounding-techniques''\<rparr>),
      (''lonely'', \<lparr>res_type = ''resource'',
         res_label = ''Mental Health America peer support'',
         res_link = ''https://mhanational.org/peers''\<rparr>),
      (''anxious'', \<lparr>res_type = ''exercise'', res_label = ''Box breathing technique'',
         res_link = ''https://www.va.gov/WHOLEHEALTHLIBRARY/tools/box-breathing.asp''\<rparr>),
      (''panic'', \<lparr>res_type = ''exercise'', res_label = ''Panic attack grounding steps'',
         res_link = ''https://www.verywellmind.com/stop-a-panic-attack-2584406''\<rparr>),
      (''overwhelmed'', \<lparr>res_type = ''article'',
         res_label = ''Guided journaling prompts for overwhelm'',
         res_link = ''https://www.therapistaid.com/worksheets/coping-skills-anxiety.pdf''\<rparr>),
      (''self-harm'', \<lparr>res_type = ''hotline'',
         res_label = ''Self-Injury Outreach & Support'',
         res_link = ''https://sioutreach.org/dont-hurt-yourself/''\<rparr>),
      (''grief'', \<lparr>res_type = ''resource'', res_label = ''Grief Share support groups'',
         res_link = ''https://www.griefshare.org/findagroup''\<rparr>),
      (''insomnia'', \<lparr>res_type = ''exercise'', res_label = ''Sleep hygiene checklist'',
         res_link = ''https://www.sleepfoundation.org/sleep-hygiene''\<rparr>),
      (''burnout'', \<lparr>res_type = ''article'', res_label = ''Burnout recovery micro-breaks'',
         res_link = ''https://www.apa.org/topics/burnout/recover''\<rparr>)]"

text \<open>\<^verbatim>\<open>_call_rag_fn\<close>: the first entry point the module has is called; a module with
  none raises \<^verbatim>\<open>RuntimeError\<close>.\<close>
fun call_first :: "rag_module \<Rightarrow> string list \<Rightarrow> string \<Rightarrow> pyval outcome" where
  "call_first m [] text = Raises ''RAG risk module is missing a callable entry point.''"
| "call_first m (name # names) text =
     (case m name of Some f \<Rightarrow> f text | None \<Rightarrow> call_first m names text)"

definition call_rag_fn :: "rag_module \<Rightarrow> string \<Rightarrow> pyval outcome" where
  "call_rag_fn m text =
     call_first m [''assess'', ''analyze'', ''analyze_text'', ''evaluate'', ''predict'',
                   ''classify'', ''run''] text"

text \<open>\<^verbatim>\<open>for note in raw_notes\<close>: what iterating the value yields; a number or a bool
  is not iterable.\<close>
fun py_iter :: "pyval \<Rightarrow> error + pyval list" where
  "py_iter (PyList xs) = Inr xs"
| "py_iter (PyTuple xs) = Inr xs"
| "py_iter (PyStr s) = Inr (map PyStr (utf8_chars s))"
| "py_iter (PyDict kvs) = Inr (map fst kvs)"
| "py_iter v = Inl TypeError"

fun str_items :: "pyval list \<Rightarrow> string list" where
  "str_items [] = []"
| "str_items (PyStr s # ds) = s # str_items ds"
| "str_items (d # ds) = str_items ds"

text \<open>The second half of \<^verbatim>\<open>_rag_assess\<close>: the reading of a response that is a
  dictionary. It is outside the \<^verbatim>\<open>try\<close>.\<close>
definition read_response :: "py_runtime \<Rightarrow> (pyval \<times> pyval) list \<Rightarrow> error + RiskAssessment" where
  "read_response rt raw =
     (let tier = tier_from_label rt
                   (py_or (dict_get raw ''risk_level'' PyNone) (dict_get raw ''tier'' PyNone))
      in case normalize_score rt (dict_get raw ''score'' (PyFloat 0)) of
           Inl e \<Rightarrow> Inl e
         | Inr score \<Rightarrow>
            (let flagged =
                   (case dict_get raw ''dimensions'' PyNone of
                      PyStr d \<Rightarrow> [d]
                    | PyList ds \<Rightarrow> str_items ds
                    | PyTuple ds \<Rightarrow> str_items ds
                    | _ \<Rightarrow> []);
                 flagged =
                   (case dict_get raw ''dimension'' PyNone of
                      PyStr d \<Rightarrow> flagged @ [d]
                    | _ \<Rightarrow> flagged);
                 raw_notes = py_or (dict_get raw ''notes'' PyNone) (PyList [])
             in case py_iter raw_notes of
                  Inl e \<Rightarrow> Inl e
                | Inr items \<Rightarrow>
                   (let notes = map (str_of rt) (filter truthy items);
                        emotion = dict_get raw ''emotion'' PyNone;
                        notes =
                          (if truthy emotion \<and> \<not> list_ex (sublist ''emotion'') notes
                           then notes @ [''emotion='' @ str_of rt emotion]
                           else notes)
                    in Inr \<lparr>r_tier = tier, r_score = score,
                            r_flagged_keywords = flagged, r_notes = notes\<rparr>)))"

text \<open>\<^verbatim>\<open>_rag_assess\<close>. The call of the module is inside the \<^verbatim>\<open>try\<close>.\<close>
definition rag_assess ::
  "py_runtime \<Rightarrow> RiskClassifier \<Rightarrow> string \<Rightarrow> error + (RiskAssessment option \<times> string list)" where
  "rag_assess rt clf text =
     (case rag_module clf of
        None \<Rightarrow> Inr (None, [''RAG risk module unavailable.''])
      | Some m \<Rightarrow>
         (case call_rag_fn m text of
            Raises exc \<Rightarrow> Inr (None, [''RAG risk module error: '' @ exc])
          | Returns (PyDict raw) \<Rightarrow>
             (case read_response rt raw of
                Inl e \<Rightarrow> Inl e
              | Inr ra \<Rightarrow> Inr (Some ra, []))
          | Returns _ \<Rightarrow> Inr (None, [''RAG risk module returned an unexpected response.''])))"

text \<open>\<^verbatim>\<open>_find_phrases\<close> and \<^verbatim>\<open>_find_keywords\<close>; the second argument is the
  iterable in the order it is iterated.\<close>
definition find_phrases :: "string \<Rightarrow> string list \<Rightarrow> string list" where
  "find_phrases text phrases = filter (\<lambda>phrase. sublist phrase text) phrases"

definition find_keywords :: "string \<Rightarrow> string list \<Rightarrow> string list" where
  "find_keywords text keywords =
     (let token_set = set (findall text)
      in filter (\<lambda>keyword. if CHR '' '' \<in> set keyword then sublist keyword text
                            else keyword \<in> token_set) keywords)"

definition extract_keywords :: "py_runtime \<Rightarrow> string \<Rightarrow> string list" where
  "extract_keywords rt text =
     (let lowered = lower text
      in find_phrases lowered (set_iter rt CRISIS_PHRASES)
         @ find_keywords lowered (set_iter rt HIGH_KEYWORDS)
         @ find_keywords lowered (set_iter rt CAUTION_KEYWORDS))"

text \<open>The two notes of \<^verbatim>\<open>_apply_adapters\<close>:
  \<^verbatim>\<open>f"Adapter '{name}' failed: {exc}"\<close> and
  \<^verbatim>\<open>f"Adapter '{name}' escalated tier to {result.tier.value}."\<close>.\<close>
definition failed_note :: "string \<Rightarrow> string \<Rightarrow> string" where
  "failed_note name exc = ''Adapter '' @ [CHR 0x27] @ name @ [CHR 0x27] @ '' failed: '' @ exc"

definition escalated_note :: "string \<Rightarrow> RiskTier \<Rightarrow> string" where
  "escalated_note name tier =
     ''Adapter '' @ [CHR 0x27] @ name @ [CHR 0x27] @ '' escalated tier to '' @ tier_value tier
       @ ''.''"

text \<open>The body of the loop of \<^verbatim>\<open>_apply_adapters\<close>; the state is
  (flagged, tier, score, notes).\<close>
definition adapter_step ::
  "string \<Rightarrow> SentimentResult \<Rightarrow> string list \<times> RiskTier \<times> rat \<times> string list \<Rightarrow> RiskAdapter
   \<Rightarrow> string list \<times> RiskTier \<times> rat \<times> string list" where
  "adapter_step text sentiment st adapter =
     (case st of (flagged, tier, score, notes) \<Rightarrow>
      case a_call adapter text sentiment of
        Raises exc \<Rightarrow> (flagged, tier, score, notes @ [failed_note (a_name adapter) exc])
      | Returns None \<Rightarrow> (flagged, tier, score, notes)
      | Returns (Some result) \<Rightarrow>
          (let flagged = flagged @ r_flagged_keywords result;
               escalates = (RISK_SEVERITY (r_tier result) > RISK_SEVERITY tier);
               notes =
                 (if escalates then notes @ [escalated_note (a_name adapter) (r_tier result)]
                  else notes);
               tier = (if escalates then r_tier result else tier);
               score = max score (r_score result);
               notes = notes @ r_notes result
           in (flagged, tier, score, notes)))"

text \<open>\<^verbatim>\<open>_apply_adapters\<close>, returning (tier, score, flagged, notes).\<close>
definition apply_adapters ::
  "RiskClassifier \<Rightarrow> string \<Rightarrow> SentimentResult \<Rightarrow> RiskTier \<Rightarrow> rat
   \<Rightarrow> RiskTier \<times> rat \<times> string list \<times> string list" where
  "apply_adapters clf text sentiment current_tier current_score =
     (case foldl (adapter_step text sentiment) ([], current_tier, current_score, [])
             (adapters clf) of
        (flagged, tier, score, notes) \<Rightarrow> (tier, score, flagged, notes))"

text \<open>\<^verbatim>\<open>RiskClassifier.assess\<close>; \<^verbatim>\<open>sorted(set(flagged))\<close> is \<open>sort (remdups flagged)\<close>.\<close>
definition assess ::
  "py_runtime \<Rightarrow> RiskClassifier \<Rightarrow> string \<Rightarrow> SentimentResult \<Rightarrow> RiskTier list
   \<Rightarrow> error + RiskAssessment" where
  "assess rt clf text sentiment recent_tiers =
     (case rag_assess rt clf text of
        Inl e \<Rightarrow> Inl e
      | Inr (rag_assessment, rag_notes) \<Rightarrow>
         (let (tier, score, flagged, notes) =
                (case rag_assessment of
                   Some ra \<Rightarrow> (r_tier ra, r_score ra, r_flagged_keywords ra, r_notes ra @ rag_notes)
                 | None \<Rightarrow>
                     (OK, 0, [],
                      if rag_notes \<noteq> [] then rag_notes else [''RAG risk module unavailable.'']));
              flagged = flagged @ extract_keywords rt text
          in case apply_adapters clf text sentiment tier score of
               (tier, score, adapter_flagged, adapter_notes) \<Rightarrow>
                 Inr \<lparr>r_tier = tier, r_score = round3 score,
                      r_flagged_keywords = sort (remdups (flagged @ adapter_flagged)),
                      r_notes = notes @ adapter_notes\<rparr>))"

text \<open>\<^verbatim>\<open>suggest_resources\<close>; \<open>keywords\<close> is the iterable in the order it is iterated.\<close>
definition suggest_resources :: "string list \<Rightarrow> RiskTier \<Rightarrow> resource list" where
  "suggest_resources keywords tier =
     (let suggestions = List.map_filter (map_of RESOURCE_MAP) keywords
      in if (tier = HIGH \<or> tier = CRISIS)
            \<and> \<not> list_ex (\<lambda>res. res_type res = ''hotline'') suggestions
         then suggestions @ [\<lparr>res_type = ''hotline'',
                                 res_label = ''988 Suicide & Crisis Lifeline'',
                                 res_link = ''tel:988''\<rparr>]
         else suggestions)"

section \<open>Records of the session tracker\<close>

text \<open>Modelled from the spec: the dataclasses \<^verbatim>\<open>SessionRecord\<close>,
  \<^verbatim>\<open>MessageRecord\<close>, \<^verbatim>\<open>BufferSnapshot\<close>, \<^verbatim>\<open>SessionMetrics\<close> and
  \<^verbatim>\<open>SessionSummary\<close> of models.py, with the fields that session_tracking.py sets.
  Timestamps are seconds as rationals. The two count dictionaries are keyed by the enum
  members (session_tracking.py keys them by \<^verbatim>\<open>.value\<close>, one per member).\<close>

record SessionRecord =
  ses_id :: string
  ses_user_id :: string
  ses_status :: SessionStatus
  ses_created_at :: rat
  ses_updated_at :: rat
  ses_active_risk_tier :: RiskTier
  ses_metadata :: "(string \<times> string) list"

record MessageRecord =
  msg_id :: "nat option"
  msg_session_id :: string
  msg_sender :: SenderRole
  msg_content :: string
  msg_sentiment_score :: rat
  msg_risk_tier :: RiskTier
  msg_risk_score :: rat
  msg_flagged_keywords :: "string list"
  msg_created_at :: rat

record BufferSnapshot =
  buf_session_id :: string
  buf_messages :: "MessageRecord list"
  buf_capacity :: nat

record SessionMetrics =
  met_session_id :: string
  met_message_count :: nat
  met_user_turns :: nat
  met_assistant_turns :: nat
  met_avg_sentiment :: rat
  met_max_risk_tier :: RiskTier
  met_tier_counts :: "RiskTier \<rightharpoonup> nat"
  met_band_counts :: "SentimentBand \<rightharpoonup> nat"
  met_trend_notes :: "string list"
  met_suggested_resources :: "resource list"

record SessionSummary =
  sum_session :: SessionRecord
  sum_metrics :: SessionMetrics
  sum_duration_seconds :: int
  sum_flagged_keywords :: "string list"
  sum_notes :: "string list"

text \<open>The dataclass \<^verbatim>\<open>MessageAppendResult\<close> of session_tracking.py.\<close>
record MessageAppendResult =
  mar_message :: MessageRecord
  mar_risk :: RiskAssessment
  mar_buffer :: BufferSnapshot
  mar_metrics :: SessionMetrics

section \<open>Storage\<close>

text \<open>Modelled from the spec: the class \<^verbatim>\<open>SessionStorage\<close> of storage.py, by the
  contract of the persistence collaborator: sessions, buffers and metrics are kept by
  session id, messages are listed in insertion order, no write is dropped, and a read
  returns what was last written. \<open>storage_update_session\<close> sets the fields it is given
  and \<open>updatedAt\<close>, to the time it is passed; the identity of a message is its position.\<close>
record SessionStorage =
  sessions :: "string \<rightharpoonup> SessionRecord"
  messages :: "MessageRecord list"
  buffers :: "string \<rightharpoonup> BufferSnapshot"
  metrics :: "string \<rightharpoonup> SessionMetrics"

definition storage_create_session :: "SessionStorage \<Rightarrow> SessionRecord \<Rightarrow> SessionStorage" where
  "storage_create_session st session = st\<lparr>sessions := (sessions st)(ses_id session \<mapsto> session)\<rparr>"

definition storage_get_session :: "SessionStorage \<Rightarrow> string \<Rightarrow> SessionRecord option" where
  "storage_get_session st session_id = sessions st session_id"

definition storage_update_session ::
  "SessionStorage \<Rightarrow> string \<Rightarrow> rat \<Rightarrow> SessionStatus option \<Rightarrow> RiskTier option \<Rightarrow> SessionStorage" where
  "storage_update_session st session_id now new_status new_tier =
     (case sessions st session_id of
        None \<Rightarrow> st
      | Some s \<Rightarrow>
          st\<lparr>sessions := (sessions st)(session_id \<mapsto>
               s\<lparr>ses_status := (case new_status of None \<Rightarrow> ses_status s | Some v \<Rightarrow> v),
                 ses_active_risk_tier :=
                   (case new_tier of None \<Rightarrow> ses_active_risk_tier s | Some v \<Rightarrow> v),
                 ses_updated_at := now\<rparr>)\<rparr>)"

definition storage_insert_message ::
  "SessionStorage \<Rightarrow> MessageRecord \<Rightarrow> SessionStorage \<times> MessageRecord" where
  "storage_insert_message st message =
     (let saved = message\<lparr>msg_id := Some (Suc (length (messages st)))\<rparr>
      in (st\<lparr>messages := messages st @ [saved]\<rparr>, saved))"

definition storage_list_messages :: "SessionStorage \<Rightarrow> string \<Rightarrow> MessageRecord list" where
  "storage_list_messages st session_id =
     filter (\<lambda>m. msg_session_id m = session_id) (messages st)"

definition storage_recent_messages ::
  "SessionStorage \<Rightarrow> string \<Rightarrow> nat \<Rightarrow> MessageRecord list" where
  "storage_recent_messages st session_id n =
     (let ms = storage_list_messages st session_id in drop (length ms - n) ms)"

definition storage_save_buffer :: "SessionStorage \<Rightarrow> BufferSnapshot \<Rightarrow> SessionStorage" where
  "storage_save_buffer st snapshot = st\<lparr>buffers := (buffers st)(buf_session_id snapshot \<mapsto> snapshot)\<rparr>"

definition storage_load_buffer :: "SessionStorage \<Rightarrow> string \<Rightarrow> BufferSnapshot option" where
  "storage_load_buffer st session_id = buffers st session_id"

definition storage_upsert_metrics :: "SessionStorage \<Rightarrow> SessionMetrics \<Rightarrow> SessionStorage" where
  "storage_upsert_metrics st m = st\<lparr>metrics := (metrics st)(met_session_id m \<mapsto> m)\<rparr>"

definition storage_get_metrics :: "SessionStorage \<Rightarrow> string \<Rightarrow> SessionMetrics option" where
  "storage_get_metrics st session_id = metrics st session_id"

section \<open>SessionTracker\<close>

text \<open>The tracker's configuration; its storage is passed to every operation and returned
  updated. An operation that raises returns the storage as the raise leaves it.\<close>
record SessionTracker =
  buffer_size :: nat
  risk_classifier :: RiskClassifier

definition sentiment_band_from_score :: "rat \<Rightarrow> SentimentBand" where
  "sentiment_band_from_score sc =
     (if double_of sc > double_of (1 / 10) then POSITIVE
      else if double_of sc < double_of (- (1 / 10)) then NEGATIVE
      else NEUTRAL)"

text \<open>\<^verbatim>\<open>create_session\<close>; the fresh uuid and the two readings of the clock are
  arguments.\<close>
definition create_session ::
  "SessionTracker \<Rightarrow> SessionStorage \<Rightarrow> string \<Rightarrow> rat \<Rightarrow> rat \<Rightarrow> string \<Rightarrow> (string \<times> string) list
   \<Rightarrow> SessionStorage \<times> SessionRecord" where
  "create_session tr st new_id now1 now2 user_id metadata =
     (let session = \<lparr>ses_id = new_id, ses_user_id = user_id, ses_status = ACTIVE,
                      ses_created_at = now1, ses_updated_at = now2,
                      ses_active_risk_tier = OK, ses_metadata = metadata\<rparr>;
          st = storage_create_session st session;
          st = storage_save_buffer st
                 \<lparr>buf_session_id = ses_id session, buf_messages = [],
                  buf_capacity = buffer_size tr\<rparr>
      in (st, session))"

definition get_session :: "SessionStorage \<Rightarrow> string \<Rightarrow> error + SessionRecord" where
  "get_session st session_id =
     (case storage_get_session st session_id of
        None \<Rightarrow> Inl (SessionNotFound session_id)
      | Some session \<Rightarrow> Inr session)"

definition update_buffer ::
  "SessionTracker \<Rightarrow> SessionStorage \<Rightarrow> string \<Rightarrow> SessionStorage \<times> BufferSnapshot" where
  "update_buffer tr st session_id =
     (let recent = storage_recent_messages st session_id (buffer_size tr);
          snapshot = \<lparr>buf_session_id = session_id, buf_messages = recent,
                       buf_capacity = buffer_size tr\<rparr>
      in (storage_save_buffer st snapshot, snapshot))"

text \<open>The elements of the Python set \<^verbatim>\<open>flagged_keywords\<close> that
  \<^verbatim>\<open>keywords.update(message.flagged_keywords)\<close> builds over the messages.\<close>
definition keyword_set :: "MessageRecord list \<Rightarrow> string list" where
  "keyword_set ms = rev (remdups (rev (concat (map msg_flagged_keywords ms))))"

definition collect_flagged_keywords :: "SessionStorage \<Rightarrow> string \<Rightarrow> string list" where
  "collect_flagged_keywords st session_id =
     sort (keyword_set (storage_list_messages st session_id))"

text \<open>\<^verbatim>\<open>counts[key] += 1\<close> on a dictionary that was filled with every member of the
  enum: the key is always there and \<^verbatim>\<open>KeyError\<close> cannot be raised (a dictionary
  without the key is left as it is).\<close>
definition tally :: "('k \<rightharpoonup> nat) \<Rightarrow> 'k \<Rightarrow> ('k \<rightharpoonup> nat)" where
  "tally counts k = (case counts k of None \<Rightarrow> counts | Some c \<Rightarrow> counts(k \<mapsto> c + 1))"

definition zero_counts :: "'k list \<Rightarrow> ('k \<rightharpoonup> nat)" where
  "zero_counts ks = foldl (\<lambda>m k. m(k \<mapsto> 0)) Map.empty ks"

definition all_tiers :: "RiskTier list" where
  "all_tiers = [OK, CAUTION, HIGH, CRISIS]"

definition all_bands :: "SentimentBand list" where
  "all_bands = [POSITIVE, NEUTRAL, NEGATIVE]"

text \<open>The loop \<^verbatim>\<open>for tier in RiskTier\<close> that finds \<^verbatim>\<open>max_risk_tier\<close>.\<close>
definition max_tier_step :: "(RiskTier \<rightharpoonup> nat) \<Rightarrow> RiskTier \<Rightarrow> RiskTier \<Rightarrow> RiskTier" where
  "max_tier_step tier_counts max_risk_tier tier =
     (if (case tier_counts tier of None \<Rightarrow> False | Some c \<Rightarrow> c \<noteq> 0)
         \<and> RISK_SEVERITY tier \<ge> RISK_SEVERITY max_risk_tier
      then tier else max_risk_tier)"

text \<open>The trend notes of \<^verbatim>\<open>_recalculate_metrics\<close>.\<close>
definition trend_notes_of :: "RiskTier list \<Rightarrow> rat \<Rightarrow> string list" where
  "trend_notes_of recent_risk avg_sentiment =
     (if recent_risk \<noteq> [] then
        (let last_three = drop (length recent_risk - 3) recent_risk
         in (if list_all (\<lambda>tier. tier = CAUTION \<or> tier = HIGH \<or> tier = CRISIS) last_three
             then [''Sustained elevated risk across last three turns.''] else [])
          @ (if length recent_risk \<ge> 2
                \<and> RISK_SEVERITY (recent_risk ! (length recent_risk - 1))
                    > RISK_SEVERITY (recent_risk ! (length recent_risk - 2))
             then [''Risk climbing on most recent turn.''] else [])
          @ (if double_of avg_sentiment < double_of (- (3 / 10))
             then [''Overall negative sentiment.''] else []))
      else [])"

text \<open>\<^verbatim>\<open>_recalculate_metrics\<close>.\<close>
definition recalculate_metrics ::
  "py_runtime \<Rightarrow> SessionTracker \<Rightarrow> SessionStorage \<Rightarrow> string
   \<Rightarrow> SessionStorage \<times> (SessionMetrics \<times> string list)" where
  "recalculate_metrics rt tr st session_id =
     (let msgs = storage_list_messages st session_id;
          message_count = length msgs;
          user_turns = length (filter (\<lambda>m. msg_sender m = USER) msgs);
          assistant_turns = length (filter (\<lambda>m. msg_sender m = ASSISTANT) msgs);
          avg_sentiment =
            (if message_count \<noteq> 0
             then round3 (py_sum rt (map msg_sentiment_score msgs) / of_nat message_count)
             else 0);
          tier_counts = foldl (\<lambda>c m. tally c (msg_risk_tier m)) (zero_counts all_tiers) msgs;
          band_counts =
            foldl (\<lambda>c m. tally c (sentiment_band_from_score (msg_sentiment_score m)))
              (zero_counts all_bands) msgs;
          flagged_keywords = keyword_set msgs;
          recent_risk = map msg_risk_tier msgs;
          max_risk_tier = foldl (max_tier_step tier_counts) OK all_tiers;
          trend_notes = trend_notes_of recent_risk avg_sentiment;
          suggested_resources =
            suggest_resources (set_iter rt flagged_keywords) max_risk_tier;
          m = \<lparr>met_session_id = session_id, met_message_count = message_count,
               met_user_turns = user_turns, met_assistant_turns = assistant_turns,
               met_avg_sentiment = avg_sentiment, met_max_risk_tier = max_risk_tier,
               met_tier_counts = tier_counts, met_band_counts = band_counts,
               met_trend_notes = trend_notes,
               met_suggested_resources = suggested_resources\<rparr>
      in (storage_upsert_metrics st m, (m, sort flagged_keywords)))"

definition build_summary :: "SessionRecord \<Rightarrow> SessionMetrics \<Rightarrow> string list \<Rightarrow> SessionSummary" where
  "build_summary session m flagged_keywords =
     (let duration_seconds = \<lfloor>max 0 (ses_updated_at session - ses_created_at session)\<rfloor>;
          notes = met_trend_notes m;
          notes = (if ses_status session = ENDED then notes @ [''Session marked as ended.'']
                   else notes)
      in \<lparr>sum_session = session, sum_metrics = m, sum_duration_seconds = duration_seconds,
          sum_flagged_keywords = flagged_keywords, sum_notes = notes\<rparr>)"

definition get_summary ::
  "py_runtime \<Rightarrow> SessionTracker \<Rightarrow> SessionStorage \<Rightarrow> string
   \<Rightarrow> SessionStorage \<times> (error + SessionSummary)" where
  "get_summary rt tr st session_id =
     (case get_session st session_id of
        Inl e \<Rightarrow> (st, Inl e)
      | Inr session \<Rightarrow>
         (let flagged = collect_flagged_keywords st session_id
          in case storage_get_metrics st session_id of
               Some m \<Rightarrow> (st, Inr (build_summary session m flagged))
             | None \<Rightarrow>
                 (case recalculate_metrics rt tr st session_id of
                    (st, (m, flagged)) \<Rightarrow> (st, Inr (build_summary session m flagged)))))"

text \<open>\<^verbatim>\<open>end_session\<close>; \<open>now\<close> is the time the storage writes into \<open>updatedAt\<close>.\<close>
definition end_session ::
  "py_runtime \<Rightarrow> SessionTracker \<Rightarrow> SessionStorage \<Rightarrow> string \<Rightarrow> rat
   \<Rightarrow> SessionStorage \<times> (error + SessionSummary)" where
  "end_session rt tr st session_id now =
     (case get_session st session_id of
        Inl e \<Rightarrow> (st, Inl e)
      | Inr session \<Rightarrow>
          if ses_status session = ENDED then get_summary rt tr st session_id
          else
            (case recalculate_metrics rt tr st session_id of
               (st, (m, flagged)) \<Rightarrow>
                 (let st = storage_update_session st session_id now (Some ENDED)
                             (Some (met_max_risk_tier m))
                  in case get_session st session_id of
                       Inl e \<Rightarrow> (st, Inl e)
                     | Inr session \<Rightarrow> (st, Inr (build_summary session m flagged)))))"

text \<open>\<^verbatim>\<open>append_message\<close>; \<open>created\<close> is the reading of the clock for the message,
  \<open>now\<close> the time the storage writes into \<open>updatedAt\<close>.\<close>
definition append_message ::
  "py_runtime \<Rightarrow> SessionTracker \<Rightarrow> SessionStorage \<Rightarrow> string \<Rightarrow> SenderRole \<Rightarrow> string \<Rightarrow> rat \<Rightarrow> rat
   \<Rightarrow> SessionStorage \<times> (error + MessageAppendResult)" where
  "append_message rt tr st session_id sender content created now =
     (case get_session st session_id of
        Inl e \<Rightarrow> (st, Inl e)
      | Inr session \<Rightarrow>
          if ses_status session \<noteq> ACTIVE then (st, Inl (SessionClosed session_id))
          else
            (let sentiment = sentiment_score content;
                 recent_messages = storage_recent_messages st session_id (buffer_size tr);
                 recent_tiers = map msg_risk_tier recent_messages
             in case assess rt (risk_classifier tr) content sentiment recent_tiers of
                  Inl e \<Rightarrow> (st, Inl e)
                | Inr assessment \<Rightarrow>
                   (let message =
                          \<lparr>msg_id = None, msg_session_id = session_id, msg_sender = sender,
                           msg_content = content, msg_sentiment_score = s_score sentiment,
                           msg_risk_tier = r_tier assessment,
                           msg_risk_score = r_score assessment,
                           msg_flagged_keywords = r_flagged_keywords assessment,
                           msg_created_at = created\<rparr>
                    in case storage_insert_message st message of
                         (st, saved_message) \<Rightarrow>
                           (let st = storage_update_session st session_id now None
                                       (Some (r_tier assessment))
                            in case update_buffer tr st session_id of
                                 (st, buffer) \<Rightarrow>
                                   (case recalculate_metrics rt tr st session_id of
                                      (st, (m, _)) \<Rightarrow>
                                        (st, Inr \<lparr>mar_message = saved_message,
                                                  mar_risk = assessment,
                                                  mar_buffer = buffer,
                                                  mar_metrics = m\<rparr>))))))"

section \<open>Notions used in the properties\<close>

text \<open>The sentiment analyser as the specification words it: a lexicon word contributes
  one unit, positive or negative by its lexicon, and the sign is inverted when the token
  immediately before it is a negation. The first token has no token before it.\<close>

definition lexicon_sign :: "string \<Rightarrow> int" where
  "lexicon_sign token =
     (if token \<in> set POSITIVE_WORDS then 1
      else if token \<in> set NEGATIVE_WORDS then - 1 else 0)"

definition negated_at :: "string list \<Rightarrow> nat \<Rightarrow> bool" where
  "negated_at tokens i = (0 < i \<and> tokens ! (i - 1) \<in> set NEGATIONS)"

definition unit_contribution :: "string list \<Rightarrow> nat \<Rightarrow> int" where
  "unit_contribution tokens i =
     (if negated_at tokens i then - lexicon_sign (tokens ! i) else lexicon_sign (tokens ! i))"

definition in_lexicon :: "string \<Rightarrow> bool" where
  "in_lexicon token = (token \<in> set POSITIVE_WORDS \<or> token \<in> set NEGATIVE_WORDS)"


text \<open>What an adapter contributes to an assessment: the assessment it returns, if it
  returns one.\<close>
definition adapter_result ::
  "RiskAdapter \<Rightarrow> string \<Rightarrow> SentimentResult \<Rightarrow> RiskAssessment option" where
  "adapter_result a text sentiment =
     (case a_call a text sentiment of Raises exc \<Rightarrow> None | Returns r \<Rightarrow> r)"

definition adapter_results ::
  "RiskAdapter list \<Rightarrow> string \<Rightarrow> SentimentResult \<Rightarrow> RiskAssessment list" where
  "adapter_results ads text sentiment =
     List.map_filter (\<lambda>a. adapter_result a text sentiment) ads"

text \<open>The state of the loop of \<^verbatim>\<open>_apply_adapters\<close> after the adapters \<open>ads\<close>.\<close>
definition running ::
  "string \<Rightarrow> SentimentResult \<Rightarrow> RiskTier \<Rightarrow> rat \<Rightarrow> RiskAdapter list
   \<Rightarrow> string list \<times> RiskTier \<times> rat \<times> string list" where
  "running text sentiment t0 s0 ads = foldl (adapter_step text sentiment) ([], t0, s0, []) ads"

text \<open>The baseline tier and score that \<^verbatim>\<open>assess\<close> starts from.\<close>
definition baseline :: "RiskAssessment option \<Rightarrow> RiskTier \<times> rat" where
  "baseline rag_assessment =
     (case rag_assessment of None \<Rightarrow> (OK, 0) | Some ra \<Rightarrow> (r_tier ra, r_score ra))"

text \<open>The failures of the external risk model, with the diagnostic note of each: no
  module, a call that raises, a response that is not a dictionary.\<close>
definition rag_failure :: "RiskClassifier \<Rightarrow> string \<Rightarrow> string option" where
  "rag_failure clf text =
     (case rag_module clf of
        None \<Rightarrow> Some ''RAG risk module unavailable.''
      | Some m \<Rightarrow>
         (case call_rag_fn m text of
            Raises exc \<Rightarrow> Some (''RAG risk module error: '' @ exc)
          | Returns (PyDict raw) \<Rightarrow> None
          | Returns _ \<Rightarrow> Some ''RAG risk module returned an unexpected response.''))"

section \<open>Concrete inputs\<close>

text \<open>A runtime whose \<^verbatim>\<open>sum\<close> adds from left to right and rounds every addition.\<close>
definition example_runtime :: py_runtime where
  "example_runtime =
     \<lparr>py_str = (\<lambda>v. ''<object>''), py_float_of_str = (\<lambda>s. None), set_iter = (\<lambda>xs. xs),
      py_sum = foldl (\<lambda>a x. double_of (a + double_of x)) 0\<rparr>"

text \<open>An adapter that always returns the given assessment, and one that always raises.\<close>
definition fixed_adapter :: "string \<Rightarrow> RiskTier \<Rightarrow> rat \<Rightarrow> RiskAdapter" where
  "fixed_adapter name tier sc =
     \<lparr>a_name = name,
      a_call = (\<lambda>text sentiment.
        Returns (Some \<lparr>r_tier = tier, r_score = sc, r_flagged_keywords = [], r_notes = []\<rparr>))\<rparr>"

definition failing_adapter :: "string \<Rightarrow> RiskAdapter" where
  "failing_adapter name = \<lparr>a_name = name, a_call = (\<lambda>text sentiment. Raises ''boom'')\<rparr>"

text \<open>An external model with the entry point \<^verbatim>\<open>assess\<close> that returns the given value.\<close>
definition fixed_module :: "pyval \<Rightarrow> rag_module" where
  "fixed_module v = [''assess'' \<mapsto> (\<lambda>text. Returns v)]"

text \<open>Classifiers: one whose adapter returns a score with four decimals, one whose
  adapter returns a score above 1, one with an external model that answers and two
  adapters of which the first raises, and one whose external model returns a dictionary
  with notes that cannot be iterated.\<close>

definition clf_rounding :: RiskClassifier where
  "clf_rounding = \<lparr>adapters = [fixed_adapter ''a'' OK (1234 / 10000)], rag_module = None\<rparr>"

definition clf_out_of_range :: RiskClassifier where
  "clf_out_of_range = \<lparr>adapters = [fixed_adapter ''a'' OK 5], rag_module = None\<rparr>"

definition clf_mixed :: RiskClassifier where
  "clf_mixed =
     \<lparr>adapters = [failing_adapter ''f'', fixed_adapter ''g'' CRISIS (1 / 2)],
      rag_module = Some (fixed_module
        (PyDict [(PyStr ''risk_level'', PyStr ''High''), (PyStr ''score'', PyInt 2)]))\<rparr>"

definition clf_malformed :: RiskClassifier where
  "clf_malformed =
     \<lparr>adapters = [],
      rag_module = Some (fixed_module (PyDict [(PyStr ''notes'', PyInt 5)]))\<rparr>"

text \<open>Storages and trackers: the empty storage; a tracker with no external model and
  no adapter; one whose adapter answers HIGH on one text and has no opinion on any other;
  one whose adapter always answers CAUTION; one whose external model returns the
  dictionary with notes that cannot be iterated; the storage after \<^verbatim>\<open>create_session\<close>, after
  one and after two appended messages, and after \<^verbatim>\<open>end_session\<close>.\<close>

definition empty_storage :: SessionStorage where
  "empty_storage = \<lparr>sessions = Map.empty, messages = [], buffers = Map.empty, metrics = Map.empty\<rparr>"

definition tracker_plain :: SessionTracker where
  "tracker_plain = \<lparr>buffer_size = 20, risk_classifier = \<lparr>adapters = [], rag_module = None\<rparr>\<rparr>"

definition keyword_adapter :: RiskAdapter where
  "keyword_adapter =
     \<lparr>a_name = ''kw'',
      a_call = (\<lambda>text sentiment.
        if text = ''I want to jump''
        then Returns (Some \<lparr>r_tier = HIGH, r_score = 4 / 5, r_flagged_keywords = [],
                            r_notes = []\<rparr>)
        else Returns None)\<rparr>"

definition tracker_keyword :: SessionTracker where
  "tracker_keyword =
     \<lparr>buffer_size = 20, risk_classifier = \<lparr>adapters = [keyword_adapter], rag_module = None\<rparr>\<rparr>"

definition tracker_caution :: SessionTracker where
  "tracker_caution =
     \<lparr>buffer_size = 20,
      risk_classifier = \<lparr>adapters = [fixed_adapter ''a'' CAUTION (1 / 2)], rag_module = None\<rparr>\<rparr>"

definition tracker_malformed :: SessionTracker where
  "tracker_malformed = \<lparr>buffer_size = 20, risk_classifier = clf_malformed\<rparr>"

definition fresh_storage :: SessionStorage where
  "fresh_storage = fst (create_session tracker_plain empty_storage ''s1'' 0 0 ''u1'' [])"

definition after_first :: SessionStorage where
  "after_first =
     fst (append_message example_runtime tracker_keyword fresh_storage ''s1'' USER
            ''I want to jump'' 1 1)"

definition after_second :: SessionStorage where
  "after_second =
     fst (append_message example_runtime tracker_keyword after_first ''s1'' USER ''thanks'' 2 2)"

definition ended_storage :: SessionStorage where
  "ended_storage = fst (end_session example_runtime tracker_plain fresh_storage ''s1'' 5)"

section \<open>Properties of the sentiment analyser\<close>

lemma score_step_contribution:
  "score_step tokens (s, t, m) (i, tokens ! i) =
     (s + unit_contribution tokens i,
      t + (if in_lexicon (tokens ! i) then 1 else 0),
      m @ (if in_lexicon (tokens ! i) then [tokens ! i] else []))"
  by (simp add: score_step_def unit_contribution_def lexicon_sign_def negated_at_def
      in_lexicon_def Let_def)

text \<open>The loop from position \<open>k\<close> on adds the contributions of the positions from
  \<open>k\<close>; by induction on the number of tokens left.\<close>

lemma score_loop_from:
  "k \<le> length tokens \<Longrightarrow>
   foldl (score_step tokens) (s, t, m) (enumerate k (drop k tokens)) =
     (s + (\<Sum>i = k..<length tokens. unit_contribution tokens i),
      t + length (filter in_lexicon (drop k tokens)),
      m @ filter in_lexicon (drop k tokens))"
proof (induction "length tokens - k" arbitrary: k s t m)
  case 0
  then show ?case by simp
next
  case (Suc n)
  then have lt: "k < length tokens" by simp
  then have dr: "drop k tokens = tokens ! k # drop (Suc k) tokens"
    by (simp add: Cons_nth_drop_Suc)
  have n: "n = length tokens - Suc k" using Suc.hyps(2) by simp
  have sm: "(\<Sum>i = k..<length tokens. unit_contribution tokens i) =
      unit_contribution tokens k + (\<Sum>i = Suc k..<length tokens. unit_contribution tokens i)"
    using lt by (simp add: sum.atLeast_Suc_lessThan)
  have le: "Suc k \<le> length tokens" using lt by simp
  show ?case
    unfolding dr sm
    by (simp add: score_step_contribution Suc.hyps(1)[OF n le] add.assoc del: drop_Suc_Cons)
qed

lemma score_loop_sum:
  "score_loop tokens =
     ((\<Sum>i<length tokens. unit_contribution tokens i),
      length (filter in_lexicon tokens), filter in_lexicon tokens)"
  using score_loop_from [of 0 tokens 0 0 "[]"]
  by (simp add: score_loop_def lessThan_atLeast0)

lemma sentiment_score_sum:
  "sentiment_score text =
     (let tokens = map lower (findall text);
          n = length (filter in_lexicon tokens);
          normalized =
            (if n \<noteq> 0 then of_int (\<Sum>i<length tokens. unit_contribution tokens i) / of_nat n
             else 0)
      in \<lparr>s_score = round3 normalized, s_band = band_of normalized,
          s_tokens = filter in_lexicon tokens\<rparr>)"
  by (simp add: sentiment_score_def score_loop_sum Let_def)

lemma sentiment_not_calm:
  "sentiment_score ''not calm'' = \<lparr>s_score = - 1, s_band = NEGATIVE, s_tokens = [''calm'']\<rparr>"
  by code_simp

lemma sentiment_calm:
  "sentiment_score ''calm'' = \<lparr>s_score = 1, s_band = POSITIVE, s_tokens = [''calm'']\<rparr>"
  by code_simp

lemma sentiment_calm_not:
  "sentiment_score ''calm not'' = \<lparr>s_score = 1, s_band = POSITIVE, s_tokens = [''calm'']\<rparr>"
  by code_simp

lemma sentiment_not_really_calm:
  "sentiment_score ''not really calm'' =
     \<lparr>s_score = 1, s_band = POSITIVE, s_tokens = [''calm'']\<rparr>"
  by code_simp

text \<open>
  Claim C4. For every text, the score of \<^verbatim>\<open>SentimentAnalyzer.score\<close> is the rounded
  quotient of the raw score by the number of lexicon words, and the raw score that its
  loop accumulates is the sum,
  over the positions of the token list, of the unit contribution of the lexicon word
  there, with its sign inverted exactly when the token immediately before it is a
  negation; the count and the matched tokens are those of the lexicon words. The first
  token is never negated, whatever the other tokens are, and a negation two tokens back
  has no effect. "not calm" scores -1 with band NEGATIVE, and "calm" alone scores 1 with
  band POSITIVE.
\<close>

theorem C4_negation_inverts_one_token_back:
  "sentiment_score text =
     (let tokens = map lower (findall text);
          n = length (filter in_lexicon tokens);
          normalized =
            (if n \<noteq> 0 then of_int (\<Sum>i<length tokens. unit_contribution tokens i) / of_nat n
             else 0)
      in \<lparr>s_score = round3 normalized, s_band = band_of normalized,
          s_tokens = filter in_lexicon tokens\<rparr>)
   \<and> score_loop tokens =
     ((\<Sum>i<length tokens. unit_contribution tokens i),
      length (filter in_lexicon tokens), filter in_lexicon tokens)
   \<and> unit_contribution (tokens @ [n, w]) (Suc (length tokens)) =
       (if n \<in> set NEGATIONS then - lexicon_sign w else lexicon_sign w)
   \<and> unit_contribution (w # tokens) 0 = lexicon_sign w
   \<and> sentiment_score ''not calm'' = \<lparr>s_score = - 1, s_band = NEGATIVE, s_tokens = [''calm'']\<rparr>
   \<and> sentiment_score ''calm'' = \<lparr>s_score = 1, s_band = POSITIVE, s_tokens = [''calm'']\<rparr>
   \<and> sentiment_score ''calm not'' = \<lparr>s_score = 1, s_band = POSITIVE, s_tokens = [''calm'']\<rparr>
   \<and> sentiment_score ''not really calm'' =
       \<lparr>s_score = 1, s_band = POSITIVE, s_tokens = [''calm'']\<rparr>"
proof -
  have "unit_contribution (tokens @ [n, w]) (Suc (length tokens)) =
       (if n \<in> set NEGATIONS then - lexicon_sign w else lexicon_sign w)"
    by (simp add: unit_contribution_def negated_at_def nth_append)
  moreover have "unit_contribution (w # tokens) 0 = lexicon_sign w"
    by (simp add: unit_contribution_def negated_at_def)
  ultimately show ?thesis
    using sentiment_score_sum [of "text"] score_loop_sum [of tokens] sentiment_not_calm
      sentiment_calm sentiment_calm_not sentiment_not_really_calm
    by blast
qed

section \<open>Properties of the risk classifier\<close>

lemma Max_insert_insert:
  "finite S \<Longrightarrow> Max (insert a (insert b S)) = Max (insert (max a b) S)"
  by (cases "S = {}") (simp_all add: max.assoc)

lemma adapter_results_Cons:
  "adapter_results (a # ads) text s =
     (case adapter_result a text s of None \<Rightarrow> adapter_results ads text s
      | Some r \<Rightarrow> r # adapter_results ads text s)"
  by (simp add: adapter_results_def List.map_filter_simps split: option.splits)

lemma adapter_step_tier_score:
  "\<exists>fl' ns'. adapter_step text s (fl, t, sc, ns) a =
     (fl',
      (case adapter_result a text s of None \<Rightarrow> t
       | Some r \<Rightarrow> if RISK_SEVERITY (r_tier r) > RISK_SEVERITY t then r_tier r else t),
      (case adapter_result a text s of None \<Rightarrow> sc | Some r \<Rightarrow> max sc (r_score r)),
      ns')"
  by (simp add: adapter_step_def adapter_result_def Let_def split: outcome.splits option.splits)

text \<open>The loop over the adapters keeps the maximum of the tiers and of the scores; by
  induction on the adapters, for every state the loop can be in.\<close>

lemma foldl_adapter_step_max:
  "\<exists>fl' t' sc' ns'. foldl (adapter_step text s) (fl, t, sc, ns) ads = (fl', t', sc', ns')
     \<and> RISK_SEVERITY t' =
         Max (insert (RISK_SEVERITY t)
               (set (map (\<lambda>r. RISK_SEVERITY (r_tier r)) (adapter_results ads text s))))
     \<and> sc' = Max (insert sc (set (map r_score (adapter_results ads text s))))"
proof (induction ads arbitrary: fl t sc ns)
  case Nil
  then show ?case by (simp add: adapter_results_def List.map_filter_simps)
next
  case (Cons a ads)
  obtain fl1 ns1 where st: "adapter_step text s (fl, t, sc, ns) a =
     (fl1,
      (case adapter_result a text s of None \<Rightarrow> t
       | Some r \<Rightarrow> if RISK_SEVERITY (r_tier r) > RISK_SEVERITY t then r_tier r else t),
      (case adapter_result a text s of None \<Rightarrow> sc | Some r \<Rightarrow> max sc (r_score r)),
      ns1)"
    using adapter_step_tier_score by blast
  show ?case
  proof (cases "adapter_result a text s")
    case None
    with st Cons.IH [of fl1 t sc ns1] show ?thesis
      by (simp add: adapter_results_Cons)
  next
    case (Some r)
    let ?t1 = "if RISK_SEVERITY (r_tier r) > RISK_SEVERITY t then r_tier r else t"
    have sev: "RISK_SEVERITY ?t1 = max (RISK_SEVERITY t) (RISK_SEVERITY (r_tier r))"
      by simp
    from Cons.IH [of fl1 ?t1 "max sc (r_score r)" ns1] st Some show ?thesis
      by (simp add: adapter_results_Cons Max_insert_insert sev del: Max_insert)
  qed
qed

lemma foldl_adapter_step_mono:
  "RISK_SEVERITY t
     \<le> RISK_SEVERITY (fst (snd (foldl (adapter_step text s) (fl, t, sc, ns) ads)))"
  using foldl_adapter_step_max [of "text" s fl t sc ns ads]
  by (auto simp del: Max_insert)

lemma running_mono:
  "RISK_SEVERITY (fst (snd (running text s t0 s0 (take k ads))))
     \<le> RISK_SEVERITY (fst (snd (running text s t0 s0 (take (k + j) ads))))"
proof -
  have "take (k + j) ads = take k ads @ take j (drop k ads)"
    by (simp add: take_add)
  then have "running text s t0 s0 (take (k + j) ads) =
     foldl (adapter_step text s) (running text s t0 s0 (take k ads)) (take j (drop k ads))"
    by (simp add: running_def)
  then show ?thesis
    using foldl_adapter_step_mono
    by (metis prod.collapse)
qed

lemma assess_Inl: "rag_assess rt clf text = Inl e \<Longrightarrow> assess rt clf text s h = Inl e"
  by (simp add: assess_def)

lemma assess_Inr:
  "rag_assess rt clf text = Inr (b, rn) \<Longrightarrow>
   assess rt clf text s h =
     (case running text s (fst (baseline b)) (snd (baseline b)) (adapters clf) of
        (fl, t, sc, ns) \<Rightarrow>
          Inr \<lparr>r_tier = t, r_score = round3 sc,
               r_flagged_keywords =
                 sort (remdups ((case b of None \<Rightarrow> [] | Some ra \<Rightarrow> r_flagged_keywords ra)
                                @ extract_keywords rt text @ fl)),
               r_notes =
                 (case b of
                    Some ra \<Rightarrow> r_notes ra @ rn
                  | None \<Rightarrow> if rn \<noteq> [] then rn else [''RAG risk module unavailable.''])
                 @ ns\<rparr>)"
  by (cases b)
     (simp_all add: assess_def apply_adapters_def running_def baseline_def Let_def
        split: prod.splits)

lemma assess_cases:
  "(\<exists>e. rag_assess rt clf text = Inl e \<and> assess rt clf text s h = Inl e)
   \<or> (\<exists>b rn. rag_assess rt clf text = Inr (b, rn))"
  by (cases "rag_assess rt clf text") (auto simp: assess_Inl)

lemma assess_tier_score:
  assumes "assess rt clf text s h = Inr ra" and "rag_assess rt clf text = Inr (b, rn)"
  shows "r_tier ra = fst (snd (running text s (fst (baseline b)) (snd (baseline b)) (adapters clf)))"
    and "RISK_SEVERITY (r_tier ra) =
          Max (insert (RISK_SEVERITY (fst (baseline b)))
                (set (map (\<lambda>r. RISK_SEVERITY (r_tier r)) (adapter_results (adapters clf) text s))))"
    and "r_score ra =
          round3 (Max (insert (snd (baseline b))
                        (set (map r_score (adapter_results (adapters clf) text s)))))"
proof -
  obtain fl t sc ns where
    r: "running text s (fst (baseline b)) (snd (baseline b)) (adapters clf) = (fl, t, sc, ns)"
    and t: "RISK_SEVERITY t =
         Max (insert (RISK_SEVERITY (fst (baseline b)))
               (set (map (\<lambda>r. RISK_SEVERITY (r_tier r)) (adapter_results (adapters clf) text s))))"
    and sc: "sc = Max (insert (snd (baseline b)) (set (map r_score (adapter_results (adapters clf) text s))))"
    using foldl_adapter_step_max [of "text" s "[]" "fst (baseline b)" "snd (baseline b)" "[]" "adapters clf"]
    unfolding running_def by blast
  from assms assess_Inr [OF assms(2), of s h] r
  have ra: "r_tier ra = t" "r_score ra = round3 sc" by auto
  show "r_tier ra = fst (snd (running text s (fst (baseline b)) (snd (baseline b)) (adapters clf)))"
    using ra r by simp
  show "RISK_SEVERITY (r_tier ra) =
          Max (insert (RISK_SEVERITY (fst (baseline b)))
                (set (map (\<lambda>r. RISK_SEVERITY (r_tier r)) (adapter_results (adapters clf) text s))))"
    using ra t by simp
  show "r_score ra =
          round3 (Max (insert (snd (baseline b))
                        (set (map r_score (adapter_results (adapters clf) text s)))))"
    using ra sc by simp
qed

lemma pow2_pos: "0 < pow2 k"
  by (simp add: pow2_def)

lemma floor_log2_le_0:
  assumes "0 < x" and "x \<le> 1"
  shows "floor_log2 x \<le> 0"
proof -
  obtain p q where pq: "quotient_of x = (p, q)" by (cases "quotient_of x")
  have q: "0 < q" using pq by (rule quotient_of_denom_pos)
  have x: "x = of_int p / of_int q" using pq by (rule quotient_of_div)
  have "of_int p \<le> (of_int q :: rat)"
    using assms(2) q unfolding x by (simp add: divide_le_eq)
  then have "p \<le> q" by simp
  then have "floorlog 2 (nat p) \<le> floorlog 2 (nat q)"
    by (intro floorlog_mono) simp
  then have "bitlen p \<le> bitlen q"
    by (simp add: bitlen_def)
  then show ?thesis
    by (simp add: floor_log2_def pq Let_def)
qed

lemma round_half_even_bounds:
  assumes "0 \<le> y" and "y \<le> of_int n"
  shows "0 \<le> round_half_even y" and "round_half_even y \<le> n"
proof -
  have f0: "0 \<le> \<lfloor>y\<rfloor>" using assms(1) by simp
  have fn: "\<lfloor>y\<rfloor> \<le> n" using assms(2) by (simp add: floor_le_iff)
  show "0 \<le> round_half_even y"
    using f0 by (simp add: round_half_even_def Let_def)
  show "round_half_even y \<le> n"
  proof (cases "\<lfloor>y\<rfloor> = n")
    case True
    then have "of_int n \<le> y" by (metis of_int_floor_le)
    with assms(2) have "y = of_int n" by simp
    then show ?thesis by (simp add: round_half_even_def Let_def)
  next
    case False
    with fn have "\<lfloor>y\<rfloor> + 1 \<le> n" by simp
    then show ?thesis using fn by (simp add: round_half_even_def Let_def)
  qed
qed

lemma double_of_nonneg:
  assumes "0 \<le> x"
  shows "0 \<le> double_of x"
proof (cases "x = 0")
  case True
  then show ?thesis by (simp add: double_of_def)
next
  case False
  define u where "u = pow2 (max (floor_log2 \<bar>x\<bar>) (- 1022) - 52)"
  have u: "0 < u" unfolding u_def by (rule pow2_pos)
  have "0 \<le> x / u" using assms u by simp
  then have "0 \<le> round_half_even (x / u)"
    by (simp add: round_half_even_def Let_def)
  then show ?thesis
    using False u by (simp add: double_of_def Let_def u_def [symmetric])
qed

lemma double_of_le_1:
  assumes "0 \<le> x" and "x \<le> 1"
  shows "double_of x \<le> 1"
proof (cases "x = 0")
  case True
  then show ?thesis by (simp add: double_of_def)
next
  case False
  then have pos: "0 < x" using assms(1) by simp
  define e where "e = max (floor_log2 \<bar>x\<bar>) (- 1022)"
  define n where "n = nat (52 - e)"
  have e: "e \<le> 0"
    using floor_log2_le_0 [OF pos assms(2)] pos by (simp add: e_def)
  then have u: "pow2 (e - 52) = 1 / 2 ^ n"
    by (simp add: pow2_def n_def)
  have "x / pow2 (e - 52) = x * 2 ^ n" by (simp add: u)
  also have "\<dots> \<le> 2 ^ n" using assms(2) by simp
  finally have "x / pow2 (e - 52) \<le> of_int (2 ^ n)" by simp
  moreover have "0 \<le> x / pow2 (e - 52)" using assms(1) pow2_pos [of "e - 52"] by simp
  ultimately have "round_half_even (x / pow2 (e - 52)) \<le> 2 ^ n"
    by (intro round_half_even_bounds)
  then have "(of_int (round_half_even (x / pow2 (e - 52))) :: rat) \<le> of_int (2 ^ n)"
    by (simp only: of_int_le_iff)
  then have "of_int (round_half_even (x / pow2 (e - 52))) * pow2 (e - 52) \<le> 1"
    by (simp add: u divide_le_eq)
  then show ?thesis
    using False by (simp add: double_of_def Let_def e_def [symmetric])
qed

lemma round3_unit:
  assumes "0 \<le> x" and "x \<le> 1"
  shows "0 \<le> round3 x \<and> round3 x \<le> 1"
proof -
  have a: "0 \<le> double_of x * 1000" using double_of_nonneg [OF assms(1)] by simp
  have b: "double_of x * 1000 \<le> of_int 1000" using double_of_le_1 [OF assms] by simp
  from round_half_even_bounds [OF a b]
  have "0 \<le> round_half_even (double_of x * 1000)"
    "round_half_even (double_of x * 1000) \<le> 1000" by auto
  then have "(0::rat) \<le> of_int (round_half_even (double_of x * 1000))"
    and "(of_int (round_half_even (double_of x * 1000)) :: rat) \<le> 1000"
    by (simp_all add: of_int_le_numeral_iff del: of_int_numeral)
  then show ?thesis by (simp add: round3_def)
qed

lemma normalize_score_unit:
  "normalize_score rt v = Inr x \<Longrightarrow> 0 \<le> x \<and> x \<le> 1"
  by (auto simp: normalize_score_def Let_def split: sum.splits error.splits if_splits)

lemma normalize_score_float:
  "py_float rt v = Inr f \<Longrightarrow>
   normalize_score rt v = Inr (max 0 (min 1 (if f > 1 then f / 3 else f)))"
  by (simp add: normalize_score_def Let_def)

lemma read_response_score_unit:
  "read_response rt raw = Inr ra0 \<Longrightarrow> 0 \<le> r_score ra0 \<and> r_score ra0 \<le> 1"
  unfolding read_response_def Let_def
  by (auto split: sum.splits dest!: normalize_score_unit)

lemma rag_assess_score_unit:
  "rag_assess rt clf text = Inr (Some ra0, rn) \<Longrightarrow> 0 \<le> r_score ra0 \<and> r_score ra0 \<le> 1"
  unfolding rag_assess_def
  by (auto split: option.splits outcome.splits pyval.splits sum.splits
      dest!: read_response_score_unit)

lemma rag_failure_assess:
  "rag_failure clf text = Some note \<Longrightarrow> rag_assess rt clf text = Inr (None, [note])"
  unfolding rag_failure_def rag_assess_def
  by (auto split: option.splits outcome.splits pyval.splits)

lemma baseline_unit:
  "rag_assess rt clf text = Inr (b, rn) \<Longrightarrow> 0 \<le> snd (baseline b) \<and> snd (baseline b) \<le> 1"
  by (cases b) (auto simp: baseline_def dest: rag_assess_score_unit)


text \<open>
  Claim C2 (amended). Whenever \<^verbatim>\<open>RiskClassifier.assess\<close> returns, the severity of the
  tier it returns is the maximum of the severity of the baseline tier and of the tiers of
  all assessments the adapters returned, the running tier never decreases from one adapter
  to a later one, and the score it returns is the maximum of the baseline score and of the
  adapters' scores, rounded to three decimals.
\<close>

theorem C2_assess_tier_is_max_score_is_rounded_max:
  assumes "assess rt clf text s h = Inr ra" and "rag_assess rt clf text = Inr (b, rn)"
  shows "RISK_SEVERITY (r_tier ra) =
           Max (insert (RISK_SEVERITY (fst (baseline b)))
                 (set (map (\<lambda>r. RISK_SEVERITY (r_tier r))
                        (adapter_results (adapters clf) text s))))
       \<and> r_score ra =
           round3 (Max (insert (snd (baseline b))
                         (set (map r_score (adapter_results (adapters clf) text s)))))
       \<and> r_tier ra =
           fst (snd (running text s (fst (baseline b)) (snd (baseline b)) (adapters clf)))
       \<and> (\<forall>k j. RISK_SEVERITY
                   (fst (snd (running text s (fst (baseline b)) (snd (baseline b))
                                (take k (adapters clf)))))
                 \<le> RISK_SEVERITY
                     (fst (snd (running text s (fst (baseline b)) (snd (baseline b))
                                  (take (k + j) (adapters clf))))))"
  using assess_tier_score [OF assms] running_mono by blast

text \<open>The theorem at an external model that answers HIGH with score 2 (of 3), a first
  adapter that raises and a second that answers CRISIS with score 1/2.\<close>

theorem C2_witness:
  "assess example_runtime clf_mixed ''hello'' (sentiment_score ''hello'') [] =
     Inr \<lparr>r_tier = CRISIS, r_score = 667 / 1000, r_flagged_keywords = [],
          r_notes = [failed_note ''f'' ''boom'', escalated_note ''g'' CRISIS]\<rparr>
   \<and> rag_assess example_runtime clf_mixed ''hello'' =
       Inr (Some \<lparr>r_tier = HIGH, r_score = 2 / 3, r_flagged_keywords = [], r_notes = []\<rparr>, [])
   \<and> RISK_SEVERITY CRISIS =
       Max (insert (RISK_SEVERITY HIGH)
             (set (map (\<lambda>r. RISK_SEVERITY (r_tier r))
                    (adapter_results (adapters clf_mixed) ''hello'' (sentiment_score ''hello'')))))
   \<and> (667 / 1000 :: rat) =
       round3 (Max (insert (2 / 3)
          (set (map r_score
             (adapter_results (adapters clf_mixed) ''hello'' (sentiment_score ''hello''))))))"
proof -
  have h1: "assess example_runtime clf_mixed ''hello'' (sentiment_score ''hello'') [] =
     Inr \<lparr>r_tier = CRISIS, r_score = 667 / 1000, r_flagged_keywords = [],
          r_notes = [failed_note ''f'' ''boom'', escalated_note ''g'' CRISIS]\<rparr>"
    by code_simp
  have h2: "rag_assess example_runtime clf_mixed ''hello'' =
       Inr (Some \<lparr>r_tier = HIGH, r_score = 2 / 3, r_flagged_keywords = [], r_notes = []\<rparr>, [])"
    by code_simp
  show ?thesis
    using h1 h2 C2_assess_tier_is_max_score_is_rounded_max [OF h1 h2]
    by (simp add: baseline_def)
qed

text \<open>The score is not the maximum itself: with no external model and one adapter that
  returns the score 0.1234, the maximum is 0.1234 and \<^verbatim>\<open>assess\<close> returns 0.123.\<close>

theorem C2_score_counterexample:
  "assess example_runtime clf_rounding ''hello'' (sentiment_score ''hello'') [] =
     Inr \<lparr>r_tier = OK, r_score = 123 / 1000, r_flagged_keywords = [],
          r_notes = [''RAG risk module unavailable.'']\<rparr>
   \<and> rag_assess example_runtime clf_rounding ''hello'' =
       Inr (None, [''RAG risk module unavailable.''])
   \<and> Max (insert (snd (baseline None))
        (set (map r_score
           (adapter_results (adapters clf_rounding) ''hello'' (sentiment_score ''hello'')))))
       = 1234 / 10000
   \<and> (123 / 1000 :: rat) \<noteq> 1234 / 10000"
  by code_simp


subsection \<open>Failing collaborators\<close>

lemma adapter_step_Raises:
  "a_call a text s = Raises exc \<Longrightarrow>
   adapter_step text s (fl, t, sc, ns) a = (fl, t, sc, ns @ [failed_note (a_name a) exc])"
  by (simp add: adapter_step_def)

lemma rag_failure_assess_result:
  assumes "rag_failure clf text = Some note"
  shows "assess rt clf text s h =
     Inr \<lparr>r_tier = fst (snd (running text s OK 0 (adapters clf))),
          r_score = round3 (fst (snd (snd (running text s OK 0 (adapters clf))))),
          r_flagged_keywords =
            sort (remdups (extract_keywords rt text @ fst (running text s OK 0 (adapters clf)))),
          r_notes = note # snd (snd (snd (running text s OK 0 (adapters clf))))\<rparr>"
  using assess_Inr [OF rag_failure_assess [OF assms, of rt], of s h]
  by (simp add: baseline_def split: prod.splits)

text \<open>
  The failures that the classifier absorbs. When the external risk model is missing,
  raises, or returns something that is not a dictionary, \<^verbatim>\<open>_rag_assess\<close> returns no
  assessment and the diagnostic note, and \<^verbatim>\<open>assess\<close> returns the assessment that the
  adapters build from tier OK and score 0, its notes starting with the diagnostic note. An
  adapter that raises leaves flagged keywords, tier and score as they are and adds the note
  that names it, and the adapters after it are run from that state. An exception that
  leaves \<^verbatim>\<open>assess\<close> was raised by the reading of a dictionary that the external model
  returned.
\<close>

lemma listed_failures_become_notes:
  "(rag_failure clf tx = Some diag \<longrightarrow>
      rag_assess rt clf tx = Inr (None, [diag])
      \<and> assess rt clf tx s h =
          Inr \<lparr>r_tier = fst (snd (running tx s OK 0 (adapters clf))),
               r_score = round3 (fst (snd (snd (running tx s OK 0 (adapters clf))))),
               r_flagged_keywords =
                 sort (remdups (extract_keywords rt tx
                                @ fst (running tx s OK 0 (adapters clf)))),
               r_notes = diag # snd (snd (snd (running tx s OK 0 (adapters clf))))\<rparr>)
   \<and> (a_call a tx s = Raises exc \<longrightarrow>
        adapter_step tx s (fl, t, sc, ns) a = (fl, t, sc, ns @ [failed_note (a_name a) exc])
        \<and> running tx s t0 s0 (pre @ a # post) =
            foldl (adapter_step tx s)
              (case running tx s t0 s0 pre of
                 (fl', t', sc', ns') \<Rightarrow> (fl', t', sc', ns' @ [failed_note (a_name a) exc]))
              post)
   \<and> (assess rt clf tx s h = Inl e \<longrightarrow>
        rag_assess rt clf tx = Inl e \<and> rag_failure clf tx = None)"
proof (intro conjI impI)
  assume f: "rag_failure clf tx = Some diag"
  show "rag_assess rt clf tx = Inr (None, [diag])"
    using f by (rule rag_failure_assess)
  show "assess rt clf tx s h =
          Inr \<lparr>r_tier = fst (snd (running tx s OK 0 (adapters clf))),
               r_score = round3 (fst (snd (snd (running tx s OK 0 (adapters clf))))),
               r_flagged_keywords =
                 sort (remdups (extract_keywords rt tx
                                @ fst (running tx s OK 0 (adapters clf)))),
               r_notes = diag # snd (snd (snd (running tx s OK 0 (adapters clf))))\<rparr>"
    using f by (rule rag_failure_assess_result)
next
  assume r: "a_call a tx s = Raises exc"
  show "adapter_step tx s (fl, t, sc, ns) a = (fl, t, sc, ns @ [failed_note (a_name a) exc])"
    using r by (rule adapter_step_Raises)
  show "running tx s t0 s0 (pre @ a # post) =
            foldl (adapter_step tx s)
              (case running tx s t0 s0 pre of
                 (fl', t', sc', ns') \<Rightarrow> (fl', t', sc', ns' @ [failed_note (a_name a) exc]))
              post"
    using r by (simp add: running_def adapter_step_def split: prod.splits)
next
  assume e: "assess rt clf tx s h = Inl e"
  show g: "rag_assess rt clf tx = Inl e"
  proof (cases "rag_assess rt clf tx")
    case (Inl e')
    then show ?thesis using e by (simp add: assess_Inl)
  next
    case (Inr p)
    then have "rag_assess rt clf tx = Inr (fst p, snd p)" by simp
    from assess_Inr [OF this, of s h] e show ?thesis by (simp split: prod.splits)
  qed
  show "rag_failure clf tx = None"
  proof (cases "rag_failure clf tx")
    case None
    then show ?thesis .
  next
    case (Some d)
    from rag_failure_assess [OF this, of rt] g show ?thesis by simp
  qed
qed

text \<open>
  Claim C3. \<^verbatim>\<open>assess\<close> raises to its caller when the external risk model answers
  with a dictionary whose \<open>notes\<close> are the number 5, which cannot be iterated
  (\<^verbatim>\<open>TypeError\<close>), or whose \<open>score\<close> is an int too large for a float
  (\<^verbatim>\<open>OverflowError\<close>), whatever the text, the sentiment and the adapters are; and
  \<^verbatim>\<open>append_message\<close> then raises too, so the message is not processed.
\<close>

theorem C3_malformed_response_raises:
  "assess rt \<lparr>adapters = ads,
               rag_module = Some (fixed_module (PyDict [(PyStr ''notes'', PyInt 5)]))\<rparr>
      tx s h = Inl TypeError
   \<and> assess rt \<lparr>adapters = ads,
                 rag_module = Some (fixed_module (PyDict [(PyStr ''score'', PyInt (2 ^ 1024))]))\<rparr>
        tx s h = Inl OverflowError
   \<and> append_message example_runtime tracker_malformed fresh_storage ''s1'' USER ''hello'' 1 1
       = (fresh_storage, Inl TypeError)"
proof -
  have n: "read_response rt' [(PyStr ''notes'', PyInt 5)] = Inl TypeError" for rt'
    by (simp add: read_response_def normalize_score_def dict_get_def py_or_def Let_def)
  have a: "assess rt' \<lparr>adapters = ads',
               rag_module = Some (fixed_module (PyDict [(PyStr ''notes'', PyInt 5)]))\<rparr>
      tx' s' h' = Inl TypeError" for rt' ads' tx' s' h'
    by (simp add: assess_def rag_assess_def call_rag_fn_def fixed_module_def n)
  have "normalize_score rt (PyInt (2 ^ 1024)) = Inl OverflowError"
    by (simp add: normalize_score_def)
  then have o: "read_response rt [(PyStr ''score'', PyInt (2 ^ 1024))] = Inl OverflowError"
    by (simp add: read_response_def dict_get_def py_or_def Let_def)
  have b: "assess rt \<lparr>adapters = ads,
                 rag_module = Some (fixed_module (PyDict [(PyStr ''score'', PyInt (2 ^ 1024))]))\<rparr>
        tx s h = Inl OverflowError"
    using o by (simp add: assess_def rag_assess_def call_rag_fn_def fixed_module_def)
  have ses: "sessions fresh_storage ''s1'' =
       Some \<lparr>ses_id = ''s1'', ses_user_id = ''u1'', ses_status = ACTIVE, ses_created_at = 0,
             ses_updated_at = 0, ses_active_risk_tier = OK, ses_metadata = []\<rparr>"
    by code_simp
  have c: "append_message example_runtime tracker_malformed fresh_storage ''s1'' USER ''hello'' 1 1
       = (fresh_storage, Inl TypeError)"
    by (simp add: append_message_def get_session_def storage_get_session_def ses
        tracker_malformed_def clf_malformed_def a)
  from a b c show ?thesis by blast
qed

subsection \<open>The range of the score\<close>

text \<open>
  Claim C6 (amended). When every assessment returned by an adapter has its score in
  [0, 1], the score of the assessment that \<^verbatim>\<open>assess\<close> returns is in [0, 1]. The
  score that \<^verbatim>\<open>_normalize_score\<close> returns is in [0, 1]: it is the raw value, divided
  by 3 when it exceeds 1, clamped to [0, 1].
\<close>

theorem C6_score_in_unit_interval_for_unit_adapters:
  "(assess rt clf text s h = Inr ra
      \<and> list_all (\<lambda>r. 0 \<le> r_score r \<and> r_score r \<le> 1) (adapter_results (adapters clf) text s)
      \<longrightarrow> 0 \<le> r_score ra \<and> r_score ra \<le> 1)
   \<and> (normalize_score rt v = Inr x \<longrightarrow> 0 \<le> x \<and> x \<le> 1)
   \<and> (py_float rt v = Inr f \<longrightarrow>
        normalize_score rt v = Inr (max 0 (min 1 (if f > 1 then f / 3 else f))))"
proof (intro conjI impI)
  assume a: "assess rt clf text s h = Inr ra
      \<and> list_all (\<lambda>r. 0 \<le> r_score r \<and> r_score r \<le> 1) (adapter_results (adapters clf) text s)"
  then obtain b rn where rg: "rag_assess rt clf text = Inr (b, rn)"
    using assess_cases [of rt clf "text" s h] by auto
  let ?S = "insert (snd (baseline b)) (set (map r_score (adapter_results (adapters clf) text s)))"
  have sc: "r_score ra = round3 (Max ?S)"
    using assess_tier_score(3) [OF conjunct1 [OF a] rg] .
  have "\<forall>x \<in> ?S. 0 \<le> x \<and> x \<le> 1"
    using a baseline_unit [OF rg] by (auto simp: list_all_iff)
  moreover have "Max ?S \<in> ?S" by (rule Max_in) simp_all
  ultimately have "0 \<le> Max ?S \<and> Max ?S \<le> 1" by blast
  then have "0 \<le> round3 (Max ?S) \<and> round3 (Max ?S) \<le> 1"
    using round3_unit by blast
  then show "0 \<le> r_score ra" and "r_score ra \<le> 1" using sc by simp_all
next
  assume "normalize_score rt v = Inr x"
  then show "0 \<le> x" and "x \<le> 1" using normalize_score_unit by blast+
next
  assume "py_float rt v = Inr f"
  then show "normalize_score rt v = Inr (max 0 (min 1 (if f > 1 then f / 3 else f)))"
    by (rule normalize_score_float)
qed

text \<open>The theorem at an external model with raw score 2 and an adapter with score 1/2.\<close>

theorem C6_witness:
  "assess example_runtime clf_mixed ''hello'' (sentiment_score ''hello'') [] =
     Inr \<lparr>r_tier = CRISIS, r_score = 667 / 1000, r_flagged_keywords = [],
          r_notes = [failed_note ''f'' ''boom'', escalated_note ''g'' CRISIS]\<rparr>
   \<and> list_all (\<lambda>r. 0 \<le> r_score r \<and> r_score r \<le> 1)
        (adapter_results (adapters clf_mixed) ''hello'' (sentiment_score ''hello''))
   \<and> (0 :: rat) \<le> 667 / 1000 \<and> (667 / 1000 :: rat) \<le> 1
   \<and> normalize_score example_runtime (PyInt 2) = Inr (2 / 3)
   \<and> py_float example_runtime (PyInt 2) = Inr 2
   \<and> (0 :: rat) \<le> 2 / 3 \<and> (2 / 3 :: rat) \<le> 1"
proof -
  have h1: "assess example_runtime clf_mixed ''hello'' (sentiment_score ''hello'') [] =
     Inr \<lparr>r_tier = CRISIS, r_score = 667 / 1000, r_flagged_keywords = [],
          r_notes = [failed_note ''f'' ''boom'', escalated_note ''g'' CRISIS]\<rparr>"
    by code_simp
  have h2: "list_all (\<lambda>r. 0 \<le> r_score r \<and> r_score r \<le> 1)
        (adapter_results (adapters clf_mixed) ''hello'' (sentiment_score ''hello''))"
    by code_simp
  have h3: "normalize_score example_runtime (PyInt 2) = Inr (2 / 3)"
    by code_simp
  have h4: "py_float example_runtime (PyInt 2) = Inr 2"
    by code_simp
  show ?thesis
    using h1 h2 h3 h4
      C6_score_in_unit_interval_for_unit_adapters
        [of example_runtime clf_mixed "''hello''" "sentiment_score ''hello''" "[]"
            "\<lparr>r_tier = CRISIS, r_score = 667 / 1000, r_flagged_keywords = [],
              r_notes = [failed_note ''f'' ''boom'', escalated_note ''g'' CRISIS]\<rparr>"
            "PyInt 2" "2 / 3" 2]
    by simp
qed

text \<open>The score of an adapter is not clamped: with no external model and one adapter
  that returns the score 5, \<^verbatim>\<open>assess\<close> returns the score 5.\<close>

theorem C6_adapter_score_counterexample:
  "assess example_runtime clf_out_of_range ''hello'' (sentiment_score ''hello'') [] =
     Inr \<lparr>r_tier = OK, r_score = 5, r_flagged_keywords = [],
          r_notes = [''RAG risk module unavailable.'']\<rparr>
   \<and> \<not> ((0 :: rat) \<le> 5 \<and> (5 :: rat) \<le> 1)"
  by code_simp


section \<open>Properties of the session tracker\<close>

subsection \<open>Metrics\<close>


lemma tally_apply:
  "tally counts k k' =
     (if k' = k then map_option (\<lambda>c. c + 1) (counts k) else counts k')"
  by (simp add: tally_def split: option.splits)

lemma foldl_tally:
  "foldl (\<lambda>c m. tally c (f m)) c0 ms k =
     map_option (\<lambda>c. c + length (filter (\<lambda>m. f m = k) ms)) (c0 k)"
proof (induction ms arbitrary: c0)
  case Nil
  then show ?case by (simp add: option.map_ident)
next
  case (Cons m ms)
  have "foldl (\<lambda>c m. tally c (f m)) c0 (m # ms) k =
        foldl (\<lambda>c m. tally c (f m)) (tally c0 (f m)) ms k"
    by simp
  also have "\<dots> = map_option (\<lambda>c. c + length (filter (\<lambda>m. f m = k) ms)) (tally c0 (f m) k)"
    by (rule Cons.IH)
  also have "\<dots> = map_option (\<lambda>c. c + length (filter (\<lambda>m. f m = k) (m # ms))) (c0 k)"
    by (cases "c0 k") (auto simp: tally_apply)
  finally show ?case .
qed

lemma zero_counts_all_tiers: "zero_counts all_tiers t = Some 0"
  by (cases t) (simp_all add: zero_counts_def all_tiers_def)

lemma tier_counts_apply:
  "foldl (\<lambda>c m. tally c (msg_risk_tier m)) (zero_counts all_tiers) ms t =
     Some (length (filter (\<lambda>m. msg_risk_tier m = t) ms))"
  by (simp add: foldl_tally zero_counts_all_tiers)


lemma recalculate_metrics_fields:
  assumes "recalculate_metrics rt tr st sid = (st1, m, fl)"
  shows "st1 = st\<lparr>metrics := (metrics st)(sid \<mapsto> m)\<rparr>"
    and "fl = collect_flagged_keywords st sid"
    and "met_session_id m = sid"
    and "met_message_count m = length (storage_list_messages st sid)"
    and "met_tier_counts m =
           foldl (\<lambda>c m. tally c (msg_risk_tier m)) (zero_counts all_tiers)
             (storage_list_messages st sid)"
    and "met_max_risk_tier m = foldl (max_tier_step (met_tier_counts m)) OK all_tiers"
    and "met_trend_notes m =
           trend_notes_of (map msg_risk_tier (storage_list_messages st sid)) (met_avg_sentiment m)"
  using assms
  by (auto simp: recalculate_metrics_def Let_def storage_upsert_metrics_def
      collect_flagged_keywords_def)

lemma max_tier_fold:
  assumes "\<And>t. tc t = Some (length (filter (\<lambda>m. msg_risk_tier m = t) ms))"
  shows "RISK_SEVERITY (foldl (max_tier_step tc) OK all_tiers) =
           Max (insert 0 (set (map (\<lambda>m. RISK_SEVERITY (msg_risk_tier m)) ms)))"
proof -
  let ?r = "foldl (max_tier_step tc) OK all_tiers"
  have pos: "(case tc t of None \<Rightarrow> False | Some c \<Rightarrow> c \<noteq> 0) = (t \<in> msg_risk_tier ` set ms)" for t
    by (auto simp: assms filter_empty_conv)
  have r: "?r =
     (if CRISIS \<in> msg_risk_tier ` set ms then CRISIS
      else if HIGH \<in> msg_risk_tier ` set ms then HIGH
      else if CAUTION \<in> msg_risk_tier ` set ms then CAUTION else OK)"
    by (simp add: all_tiers_def max_tier_step_def pos)
  have ub: "RISK_SEVERITY (msg_risk_tier m) \<le> RISK_SEVERITY ?r" if "m \<in> set ms" for m
  proof -
    from that have "msg_risk_tier m \<in> msg_risk_tier ` set ms" by simp
    then show ?thesis unfolding r by (cases "msg_risk_tier m") simp_all
  qed
  have img: "set (map (\<lambda>m. RISK_SEVERITY (msg_risk_tier m)) ms) =
      RISK_SEVERITY ` (msg_risk_tier ` set ms)"
    by (simp add: image_image)
  have "?r = OK \<or> ?r \<in> msg_risk_tier ` set ms"
    unfolding r by simp
  then have mem: "RISK_SEVERITY ?r \<in> insert 0 (set (map (\<lambda>m. RISK_SEVERITY (msg_risk_tier m)) ms))"
    unfolding img by (elim disjE) simp_all
  show ?thesis
    by (rule sym, rule Max_eqI) (use ub mem in auto)
qed


subsection \<open>Appending a message\<close>

lemma append_message_ok:
  assumes "append_message rt tr st sid sender content created now = (st', Inr res)"
  shows "\<exists>ses. sessions st sid = Some ses \<and> ses_status ses = ACTIVE
           \<and> sessions st' = (sessions st)(sid \<mapsto>
                ses\<lparr>ses_status := ses_status ses,
                    ses_active_risk_tier := r_tier (mar_risk res), ses_updated_at := now\<rparr>)"
    and "assess rt (risk_classifier tr) content (sentiment_score content)
           (map msg_risk_tier (storage_recent_messages st sid (buffer_size tr)))
         = Inr (mar_risk res)"
    and "messages st' = messages st @ [mar_message res]"
    and "mar_message res =
           \<lparr>msg_id = Some (Suc (length (messages st))), msg_session_id = sid,
            msg_sender = sender, msg_content = content,
            msg_sentiment_score = s_score (sentiment_score content),
            msg_risk_tier = r_tier (mar_risk res), msg_risk_score = r_score (mar_risk res),
            msg_flagged_keywords = r_flagged_keywords (mar_risk res),
            msg_created_at = created\<rparr>"
  using assms
  by (auto simp: append_message_def get_session_def storage_get_session_def Let_def
        storage_insert_message_def storage_update_session_def update_buffer_def
        storage_save_buffer_def
      split: option.splits sum.splits if_splits prod.splits
      dest!: recalculate_metrics_fields(1))

text \<open>
  Claim C10. Whenever \<^verbatim>\<open>append_message\<close> raises, the storage is the one it was called
  with: no message is inserted and the session record, the buffer snapshot and the metrics
  are unchanged. It raises \<^verbatim>\<open>SessionNotFound\<close> when the session is not in the storage
  and \<^verbatim>\<open>SessionClosed\<close> when the session is not active.
\<close>

theorem C10_append_message_atomic_on_error:
  "(append_message rt tr st sid sender content created now = (st', Inl e) \<longrightarrow> st' = st)
   \<and> (sessions st sid = None \<longrightarrow>
        append_message rt tr st sid sender content created now = (st, Inl (SessionNotFound sid)))
   \<and> (sessions st sid = Some ses \<and> ses_status ses \<noteq> ACTIVE \<longrightarrow>
        append_message rt tr st sid sender content created now = (st, Inl (SessionClosed sid)))"
proof (intro conjI impI)
  assume "append_message rt tr st sid sender content created now = (st', Inl e)"
  then show "st' = st"
    by (auto simp: append_message_def Let_def split: sum.splits if_splits prod.splits)
next
  assume "sessions st sid = None"
  then show "append_message rt tr st sid sender content created now =
      (st, Inl (SessionNotFound sid))"
    by (simp add: append_message_def get_session_def storage_get_session_def)
next
  assume "sessions st sid = Some ses \<and> ses_status ses \<noteq> ACTIVE"
  then show "append_message rt tr st sid sender content created now =
      (st, Inl (SessionClosed sid))"
    by (simp add: append_message_def get_session_def storage_get_session_def)
qed

text \<open>The theorem at a storage without the session and at one where it is ended.\<close>

theorem C10_witness:
  "append_message example_runtime tracker_plain empty_storage ''s1'' USER ''hello'' 1 1
     = (empty_storage, Inl (SessionNotFound ''s1''))
   \<and> sessions empty_storage ''s1'' = None
   \<and> sessions ended_storage ''s1'' =
       Some \<lparr>ses_id = ''s1'', ses_user_id = ''u1'', ses_status = ENDED, ses_created_at = 0,
             ses_updated_at = 5, ses_active_risk_tier = OK, ses_metadata = []\<rparr>
   \<and> append_message example_runtime tracker_plain ended_storage ''s1'' USER ''hello'' 6 6
     = (ended_storage, Inl (SessionClosed ''s1''))"
proof -
  let ?ses = "\<lparr>ses_id = ''s1'', ses_user_id = ''u1'', ses_status = ENDED, ses_created_at = 0,
             ses_updated_at = 5, ses_active_risk_tier = OK, ses_metadata = []\<rparr>"
  have h1: "sessions empty_storage ''s1'' = None"
    by (simp add: empty_storage_def)
  have h2: "sessions ended_storage ''s1'' = Some ?ses" by code_simp
  have h3: "ses_status ?ses \<noteq> ACTIVE" by simp
  note c1 = C10_append_message_atomic_on_error
    [where rt = example_runtime and tr = tracker_plain and st = empty_storage
       and sid = "''s1''" and sender = USER and content = "''hello''" and created = 1
       and now = 1 and st' = empty_storage and e = "SessionNotFound ''s1''"]
  note c2 = C10_append_message_atomic_on_error
    [where rt = example_runtime and tr = tracker_plain and st = ended_storage
       and sid = "''s1''" and sender = USER and content = "''hello''" and created = 6
       and now = 6 and st' = ended_storage and e = "SessionClosed ''s1''" and ses = ?ses]
  from c1 h1 have a: "append_message example_runtime tracker_plain empty_storage ''s1'' USER
      ''hello'' 1 1 = (empty_storage, Inl (SessionNotFound ''s1''))"
    by blast
  from c2 h2 h3 have b: "append_message example_runtime tracker_plain ended_storage ''s1'' USER
      ''hello'' 6 6 = (ended_storage, Inl (SessionClosed ''s1''))"
    by blast
  from c1 a have "empty_storage = empty_storage" by blast
  with a h1 h2 b show ?thesis by blast
qed

subsection \<open>Ending a session\<close>

lemma collect_flagged_keywords_cong:
  "messages st1 = messages st \<Longrightarrow>
   collect_flagged_keywords st1 sid = collect_flagged_keywords st sid"
  by (simp add: collect_flagged_keywords_def storage_list_messages_def)

lemma get_summary_cached:
  "sessions st sid = Some ses \<Longrightarrow> metrics st sid = Some m \<Longrightarrow>
   get_summary rt tr st sid = (st, Inr (build_summary ses m (collect_flagged_keywords st sid)))"
  by (simp add: get_summary_def get_session_def storage_get_session_def storage_get_metrics_def)

lemma get_summary_fresh:
  assumes "sessions st sid = Some ses" and "metrics st sid = None"
    and "recalculate_metrics rt tr st sid = (st1, m, fl)"
  shows "get_summary rt tr st sid =
     (st\<lparr>metrics := (metrics st)(sid \<mapsto> m)\<rparr>,
      Inr (build_summary ses m (collect_flagged_keywords st sid)))"
  using assms recalculate_metrics_fields(1,2) [OF assms(3)]
  by (simp add: get_summary_def get_session_def storage_get_session_def storage_get_metrics_def)

lemma end_session_active:
  assumes "sessions st sid = Some ses" and "ses_status ses \<noteq> ENDED"
    and "recalculate_metrics rt tr st sid = (st1, m, fl)"
  shows "end_session rt tr st sid now =
     (st\<lparr>metrics := (metrics st)(sid \<mapsto> m),
         sessions := (sessions st)(sid \<mapsto>
            ses\<lparr>ses_status := ENDED, ses_active_risk_tier := met_max_risk_tier m,
                ses_updated_at := now\<rparr>)\<rparr>,
      Inr (build_summary
             (ses\<lparr>ses_status := ENDED, ses_active_risk_tier := met_max_risk_tier m,
                 ses_updated_at := now\<rparr>)
             m (collect_flagged_keywords st sid)))"
  using assms recalculate_metrics_fields(1,2) [OF assms(3)]
  by (simp add: end_session_def get_session_def storage_get_session_def
      storage_update_session_def)

lemma end_session_ended:
  "sessions st sid = Some ses \<Longrightarrow> ses_status ses = ENDED \<Longrightarrow>
   end_session rt tr st sid now = get_summary rt tr st sid"
  by (simp add: end_session_def get_session_def storage_get_session_def)

text \<open>
  Claim C8. For a session that exists, a second \<^verbatim>\<open>end_session\<close> returns the summary
  that the first returned and leaves the storage as the first left it; the summary's
  session, which is the stored one, is ENDED.
\<close>

theorem C8_end_session_idempotent:
  assumes "sessions st sid = Some ses"
    and "end_session rt tr st sid now = (st1, r1)"
    and "end_session rt tr st1 sid now' = (st2, r2)"
  shows "r2 = r1 \<and> st2 = st1
         \<and> (\<exists>summary. r1 = Inr summary \<and> ses_status (sum_session summary) = ENDED
              \<and> sessions st2 sid = Some (sum_session summary))"
proof -
  obtain sta m fl where rc: "recalculate_metrics rt tr st sid = (sta, m, fl)"
    by (metis prod.collapse)
  show ?thesis
  proof (cases "ses_status ses = ENDED")
    case False
    let ?ses' = "ses\<lparr>ses_status := ENDED, ses_active_risk_tier := met_max_risk_tier m,
                ses_updated_at := now\<rparr>"
    from end_session_active [OF assms(1) False rc, of now] assms(2)
    have st1: "st1 = st\<lparr>metrics := (metrics st)(sid \<mapsto> m),
                      sessions := (sessions st)(sid \<mapsto> ?ses')\<rparr>"
      and r1: "r1 = Inr (build_summary ?ses' m (collect_flagged_keywords st sid))"
      by simp_all
    have s1: "sessions st1 sid = Some ?ses'" and m1: "metrics st1 sid = Some m"
      and e1: "ses_status ?ses' = ENDED" and ms: "messages st1 = messages st"
      by (simp_all add: st1)
    from end_session_ended [OF s1 e1, of rt tr now'] get_summary_cached [OF s1 m1, of rt tr]
      assms(3) collect_flagged_keywords_cong [OF ms, of sid]
    have "st2 = st1" and "r2 = r1" by (simp_all add: r1)
    then show ?thesis using r1 s1 by (simp add: build_summary_def Let_def)
  next
    case True
    show ?thesis
    proof (cases "metrics st sid")
      case (Some m0)
      have e: "end_session rt tr st sid t =
          (st, Inr (build_summary ses m0 (collect_flagged_keywords st sid)))" for t
        using end_session_ended [OF assms(1) True, of rt tr t]
          get_summary_cached [OF assms(1) Some, of rt tr]
        by simp
      from e [of now] assms(2)
      have st1: "st1 = st"
        and r1: "r1 = Inr (build_summary ses m0 (collect_flagged_keywords st sid))"
        by auto
      from e [of now'] assms(3) st1 r1
      have "st2 = st1" and "r2 = r1" by auto
      then show ?thesis using r1 st1 assms(1) True by (simp add: build_summary_def Let_def)
    next
      case None
      from end_session_ended [OF assms(1) True, of rt tr now] get_summary_fresh [OF assms(1) None rc]
        assms(2)
      have st1: "st1 = st\<lparr>metrics := (metrics st)(sid \<mapsto> m)\<rparr>"
        and r1: "r1 = Inr (build_summary ses m (collect_flagged_keywords st sid))"
        by simp_all
      have s1: "sessions st1 sid = Some ses" and m1: "metrics st1 sid = Some m"
        and ms: "messages st1 = messages st"
        by (simp_all add: st1 assms(1))
      from end_session_ended [OF s1 True, of rt tr now'] get_summary_cached [OF s1 m1, of rt tr]
        assms(3) collect_flagged_keywords_cong [OF ms, of sid]
      have "st2 = st1" and "r2 = r1" by (simp_all add: r1)
      then show ?thesis using r1 s1 True by (simp add: build_summary_def Let_def)
    qed
  qed
qed

text \<open>The theorem at the session with two messages.\<close>

theorem C8_witness:
  "sessions after_second ''s1'' =
       Some \<lparr>ses_id = ''s1'', ses_user_id = ''u1'', ses_status = ACTIVE, ses_created_at = 0,
             ses_updated_at = 2, ses_active_risk_tier = OK, ses_metadata = []\<rparr>
   \<and> snd (end_session example_runtime tracker_keyword
          (fst (end_session example_runtime tracker_keyword after_second ''s1'' 3)) ''s1'' 7)
       = snd (end_session example_runtime tracker_keyword after_second ''s1'' 3)
   \<and> fst (end_session example_runtime tracker_keyword
          (fst (end_session example_runtime tracker_keyword after_second ''s1'' 3)) ''s1'' 7)
       = fst (end_session example_runtime tracker_keyword after_second ''s1'' 3)
   \<and> map_option ses_status
        (sessions (fst (end_session example_runtime tracker_keyword after_second ''s1'' 3)) ''s1'')
       = Some ENDED"
proof -
  let ?E = "end_session example_runtime tracker_keyword after_second ''s1'' 3"
  let ?F = "end_session example_runtime tracker_keyword (fst ?E) ''s1'' 7"
  have h1: "sessions after_second ''s1'' =
       Some \<lparr>ses_id = ''s1'', ses_user_id = ''u1'', ses_status = ACTIVE, ses_created_at = 0,
             ses_updated_at = 2, ses_active_risk_tier = OK, ses_metadata = []\<rparr>"
    by code_simp
  have h2: "?E = (fst ?E, snd ?E)" by simp
  have h3: "?F = (fst ?F, snd ?F)" by simp
  from C8_end_session_idempotent [OF h1 h2 h3]
  have "snd ?F = snd ?E" and "fst ?F = fst ?E"
    and "map_option ses_status (sessions (fst ?E) ''s1'') = Some ENDED"
    by auto
  with h1 show ?thesis by blast
qed

subsection \<open>The active tier of a session\<close>

lemma storage_list_messages_append:
  "messages st' = messages st @ [m] \<Longrightarrow> msg_session_id m = sid \<Longrightarrow>
   storage_list_messages st' sid = storage_list_messages st sid @ [m]"
  by (simp add: storage_list_messages_def)

lemma end_session_max_tier:
  assumes "sessions st sid = Some ses" and "ses_status ses = ACTIVE"
    and "end_session rt tr st sid now = (st'', r)"
  shows "\<exists>summary. r = Inr summary \<and> sessions st'' sid = Some (sum_session summary)
           \<and> ses_status (sum_session summary) = ENDED
           \<and> RISK_SEVERITY (ses_active_risk_tier (sum_session summary)) =
               Max (insert 0 (set (map (\<lambda>m. RISK_SEVERITY (msg_risk_tier m))
                                    (storage_list_messages st sid))))"
proof -
  obtain sta m fl where rc: "recalculate_metrics rt tr st sid = (sta, m, fl)"
    by (metis prod.collapse)
  have na: "ses_status ses \<noteq> ENDED" using assms(2) by simp
  have tc: "met_tier_counts m t =
      Some (length (filter (\<lambda>m. msg_risk_tier m = t) (storage_list_messages st sid)))" for t
    by (simp add: recalculate_metrics_fields(5) [OF rc] tier_counts_apply)
  have mx: "RISK_SEVERITY (met_max_risk_tier m) =
      Max (insert 0 (set (map (\<lambda>m. RISK_SEVERITY (msg_risk_tier m))
                           (storage_list_messages st sid))))"
    unfolding recalculate_metrics_fields(6) [OF rc] using tc by (rule max_tier_fold)
  from end_session_active [OF assms(1) na rc, of now] assms(3) mx
  show ?thesis by (auto simp: build_summary_def Let_def)
qed

text \<open>
  Claim C1 (amended). After \<^verbatim>\<open>append_message\<close> returns, the session's
  \<open>active_risk_tier\<close> is the tier of the message just appended, the last message of the
  session. After \<^verbatim>\<open>end_session\<close> on an active session, the severity of the session's
  \<open>active_risk_tier\<close> is the maximum severity over all messages of the session, and OK's
  when there is none.
\<close>

theorem C1_active_tier_is_last_write_then_max_at_end:
  "(append_message rt tr st sid sender content created now = (st', Inr res) \<longrightarrow>
      map_option ses_active_risk_tier (sessions st' sid)
        = Some (msg_risk_tier (last (storage_list_messages st' sid)))
      \<and> storage_list_messages st' sid = storage_list_messages st sid @ [mar_message res]
      \<and> msg_risk_tier (mar_message res) = r_tier (mar_risk res))
   \<and> (sessions st sid = Some ses \<and> ses_status ses = ACTIVE
        \<and> end_session rt tr st sid now = (st'', r) \<longrightarrow>
      (\<exists>summary. r = Inr summary \<and> sessions st'' sid = Some (sum_session summary)
           \<and> ses_status (sum_session summary) = ENDED
           \<and> RISK_SEVERITY (ses_active_risk_tier (sum_session summary)) =
               Max (insert 0 (set (map (\<lambda>m. RISK_SEVERITY (msg_risk_tier m))
                                    (storage_list_messages st sid))))))"
proof (intro conjI impI)
  assume a: "append_message rt tr st sid sender content created now = (st', Inr res)"
  note ok = append_message_ok [OF a]
  have sid: "msg_session_id (mar_message res) = sid" and
    tier: "msg_risk_tier (mar_message res) = r_tier (mar_risk res)"
    by (simp_all add: ok(4))
  show l: "storage_list_messages st' sid = storage_list_messages st sid @ [mar_message res]"
    using ok(3) sid by (rule storage_list_messages_append)
  show "msg_risk_tier (mar_message res) = r_tier (mar_risk res)" by (rule tier)
  show "map_option ses_active_risk_tier (sessions st' sid)
        = Some (msg_risk_tier (last (storage_list_messages st' sid)))"
    using ok(1) by (auto simp: l tier)
next
  assume "sessions st sid = Some ses \<and> ses_status ses = ACTIVE
        \<and> end_session rt tr st sid now = (st'', r)"
  then show "\<exists>summary. r = Inr summary \<and> sessions st'' sid = Some (sum_session summary)
           \<and> ses_status (sum_session summary) = ENDED
           \<and> RISK_SEVERITY (ses_active_risk_tier (sum_session summary)) =
               Max (insert 0 (set (map (\<lambda>m. RISK_SEVERITY (msg_risk_tier m))
                                    (storage_list_messages st sid))))"
    using end_session_max_tier by blast
qed

text \<open>The theorem at the second message of a session, and at the end of that session.\<close>

theorem C1_witness:
  "\<not> isl (snd (append_message example_runtime tracker_keyword after_first ''s1'' USER ''thanks'' 2 2))
   \<and> map_option ses_active_risk_tier (sessions after_second ''s1'')
       = Some (msg_risk_tier (last (storage_list_messages after_second ''s1'')))
   \<and> sessions after_second ''s1'' =
       Some \<lparr>ses_id = ''s1'', ses_user_id = ''u1'', ses_status = ACTIVE, ses_created_at = 0,
             ses_updated_at = 2, ses_active_risk_tier = OK, ses_metadata = []\<rparr>
   \<and> (\<exists>summary.
         snd (end_session example_runtime tracker_keyword after_second ''s1'' 3) = Inr summary
         \<and> ses_status (sum_session summary) = ENDED
         \<and> RISK_SEVERITY (ses_active_risk_tier (sum_session summary)) =
               Max (insert 0 (set (map (\<lambda>m. RISK_SEVERITY (msg_risk_tier m))
                                    (storage_list_messages after_second ''s1'')))))"
proof -
  let ?A = "append_message example_runtime tracker_keyword after_first ''s1'' USER ''thanks'' 2 2"
  let ?E = "end_session example_runtime tracker_keyword after_second ''s1'' 3"
  let ?ses = "\<lparr>ses_id = ''s1'', ses_user_id = ''u1'', ses_status = ACTIVE, ses_created_at = 0,
             ses_updated_at = 2, ses_active_risk_tier = OK, ses_metadata = []\<rparr>"
  have ni: "\<not> isl (snd ?A)" by code_simp
  then have h1: "?A = (after_second, Inr (projr (snd ?A)))"
    by (simp add: after_second_def prod_eq_iff)
  have h2: "sessions after_second ''s1'' = Some ?ses" by code_simp
  have h3: "ses_status ?ses = ACTIVE" by simp
  have h4: "?E = (fst ?E, snd ?E)" by simp
  note c1 = C1_active_tier_is_last_write_then_max_at_end
    [where rt = example_runtime and tr = tracker_keyword and st = after_first
       and sid = "''s1''" and sender = USER and content = "''thanks''" and created = 2
       and now = 2 and st' = after_second and res = "projr (snd ?A)"]
  note c2 = C1_active_tier_is_last_write_then_max_at_end
    [where rt = example_runtime and tr = tracker_keyword and st = after_second
       and sid = "''s1''" and now = 3 and ses = ?ses and st'' = "fst ?E" and r = "snd ?E"]
  from c1 h1 have a: "map_option ses_active_risk_tier (sessions after_second ''s1'')
       = Some (msg_risk_tier (last (storage_list_messages after_second ''s1'')))"
    by blast
  from c2 h2 h3 h4 have b: "\<exists>summary. snd ?E = Inr summary
         \<and> ses_status (sum_session summary) = ENDED
         \<and> RISK_SEVERITY (ses_active_risk_tier (sum_session summary)) =
               Max (insert 0 (set (map (\<lambda>m. RISK_SEVERITY (msg_risk_tier m))
                                    (storage_list_messages after_second ''s1''))))"
    by blast
  from ni a h2 b show ?thesis by blast
qed

text \<open>The tier is not the maximum: after a message of tier HIGH and one of tier OK the
  session's tier is OK, below what it was after the first.\<close>

theorem C1_last_write_counterexample:
  "map msg_risk_tier (storage_list_messages after_second ''s1'') = [HIGH, OK]
   \<and> map_option ses_active_risk_tier (sessions after_first ''s1'') = Some HIGH
   \<and> map_option ses_active_risk_tier (sessions after_second ''s1'') = Some OK
   \<and> RISK_SEVERITY OK < RISK_SEVERITY HIGH"
  by code_simp

subsection \<open>Trend notes\<close>

lemma trend_notes_sustained_iff:
  "(''Sustained elevated risk across last three turns.'' \<in> set (trend_notes_of rr avg))
     = (rr \<noteq> [] \<and> list_all (\<lambda>tier. tier = CAUTION \<or> tier = HIGH \<or> tier = CRISIS)
                       (drop (length rr - 3) rr))"
  by (simp add: trend_notes_of_def Let_def)

lemma trend_notes_climbing_iff:
  "(''Risk climbing on most recent turn.'' \<in> set (trend_notes_of rr avg))
     = (length rr \<ge> 2
        \<and> RISK_SEVERITY (rr ! (length rr - 1)) > RISK_SEVERITY (rr ! (length rr - 2)))"
  by (auto simp: trend_notes_of_def Let_def)

text \<open>
  Claim C7. A session whose only message has tier CAUTION: the metrics recomputed by
  \<^verbatim>\<open>append_message\<close> count one message and hold the note "Sustained elevated risk
  across last three turns.", though the session has no three messages.
\<close>

theorem C7_sustained_note_after_one_message:
  "map_sum id (\<lambda>r. (map msg_risk_tier (buf_messages (mar_buffer r)),
                     met_message_count (mar_metrics r), met_trend_notes (mar_metrics r)))
     (snd (append_message example_runtime tracker_caution fresh_storage ''s1'' USER ''hello'' 1 1))
   = Inr ([CAUTION], 1, [''Sustained elevated risk across last three turns.''])"
  by code_simp

subsection \<open>The scenario of the hopeless and empty message\<close>

lemma extract_hopeless_empty:
  assumes "set (set_iter rt CAUTION_KEYWORDS) = set CAUTION_KEYWORDS"
  shows "''hopeless'' \<in> set (extract_keywords rt ''I feel hopeless and empty'')"
    and "''empty'' \<in> set (extract_keywords rt ''I feel hopeless and empty'')"
proof -
  have lw: "findall (lower ''I feel hopeless and empty'') =
      [''i'', ''feel'', ''hopeless'', ''and'', ''empty'']"
    by code_simp
  have "''hopeless'' \<in> set CAUTION_KEYWORDS" and "''empty'' \<in> set CAUTION_KEYWORDS"
    by (simp_all add: CAUTION_KEYWORDS_def)
  then have m: "''hopeless'' \<in> set (set_iter rt CAUTION_KEYWORDS)"
    "''empty'' \<in> set (set_iter rt CAUTION_KEYWORDS)"
    using assms by simp_all
  show "''hopeless'' \<in> set (extract_keywords rt ''I feel hopeless and empty'')"
    using m(1) by (simp add: extract_keywords_def find_keywords_def Let_def lw)
  show "''empty'' \<in> set (extract_keywords rt ''I feel hopeless and empty'')"
    using m(2) by (simp add: extract_keywords_def find_keywords_def Let_def lw)
qed

lemma assess_flagged_superset:
  assumes "assess rt clf text s h = Inr ra"
  shows "set (extract_keywords rt text) \<subseteq> set (r_flagged_keywords ra)"
proof -
  obtain b rn where rg: "rag_assess rt clf text = Inr (b, rn)"
    using assms assess_cases [of rt clf "text" s h] by auto
  from assess_Inr [OF rg, of s h] assms show ?thesis
    by (auto split: prod.splits)
qed

lemma band_minus_one: "sentiment_band_from_score (- 1) = NEGATIVE"
  by code_simp

lemma sentiment_hopeless_empty:
  "sentiment_score ''I feel hopeless and empty'' =
     \<lparr>s_score = - 1, s_band = NEGATIVE, s_tokens = [''hopeless'', ''empty'']\<rparr>"
  by code_simp

text \<open>
  Claim C5 (amended). When the user message "I feel hopeless and empty" is appended, the
  flagged keywords of the assessment and of the stored message contain "hopeless" and
  "empty", the sentiment score is -1 and its band is NEGATIVE. The tier is CAUTION or
  above exactly when the baseline tier of the external model or the tier of an assessment
  returned by an adapter is: the keywords do not raise it.
\<close>

theorem C5_hopeless_and_empty:
  assumes "set (set_iter rt CAUTION_KEYWORDS) = set CAUTION_KEYWORDS"
    and "append_message rt tr st sid USER ''I feel hopeless and empty'' created now = (st', Inr res)"
    and "rag_assess rt (risk_classifier tr) ''I feel hopeless and empty'' = Inr (b, rn)"
  shows "''hopeless'' \<in> set (r_flagged_keywords (mar_risk res))
       \<and> ''empty'' \<in> set (r_flagged_keywords (mar_risk res))
       \<and> msg_flagged_keywords (mar_message res) = r_flagged_keywords (mar_risk res)
       \<and> s_band (sentiment_score ''I feel hopeless and empty'') = NEGATIVE
       \<and> msg_sentiment_score (mar_message res) = - 1
       \<and> sentiment_band_from_score (msg_sentiment_score (mar_message res)) = NEGATIVE
       \<and> msg_risk_tier (mar_message res) = r_tier (mar_risk res)
       \<and> (RISK_SEVERITY CAUTION \<le> RISK_SEVERITY (r_tier (mar_risk res))
            \<longleftrightarrow> RISK_SEVERITY CAUTION \<le> RISK_SEVERITY (fst (baseline b))
                \<or> list_ex (\<lambda>r. RISK_SEVERITY CAUTION \<le> RISK_SEVERITY (r_tier r))
                     (adapter_results (adapters (risk_classifier tr))
                        ''I feel hopeless and empty''
                        (sentiment_score ''I feel hopeless and empty'')))"
proof -
  let ?c = "''I feel hopeless and empty''"
  note ok = append_message_ok [OF assms(2)]
  have fl: "set (extract_keywords rt ?c) \<subseteq> set (r_flagged_keywords (mar_risk res))"
    using ok(2) by (rule assess_flagged_superset)
  have k: "''hopeless'' \<in> set (r_flagged_keywords (mar_risk res))"
    "''empty'' \<in> set (r_flagged_keywords (mar_risk res))"
    using fl extract_hopeless_empty [OF assms(1)] by blast+
  have m: "msg_flagged_keywords (mar_message res) = r_flagged_keywords (mar_risk res)"
    "msg_sentiment_score (mar_message res) = - 1"
    "msg_risk_tier (mar_message res) = r_tier (mar_risk res)"
    by (simp_all add: ok(4) sentiment_hopeless_empty)
  have bd: "s_band (sentiment_score ?c) = NEGATIVE"
    "sentiment_band_from_score (msg_sentiment_score (mar_message res)) = NEGATIVE"
    by (simp_all add: m(2) sentiment_hopeless_empty band_minus_one)
  let ?S = "insert (RISK_SEVERITY (fst (baseline b)))
                (set (map (\<lambda>r. RISK_SEVERITY (r_tier r))
                   (adapter_results (adapters (risk_classifier tr)) ?c (sentiment_score ?c))))"
  have "RISK_SEVERITY (r_tier (mar_risk res)) = Max ?S"
    using assess_tier_score(2) [OF ok(2) assms(3)] .
  moreover have "(RISK_SEVERITY CAUTION \<le> Max ?S) = (\<exists>a \<in> ?S. RISK_SEVERITY CAUTION \<le> a)"
    by (rule Max_ge_iff) simp_all
  ultimately have t: "RISK_SEVERITY CAUTION \<le> RISK_SEVERITY (r_tier (mar_risk res))
            \<longleftrightarrow> RISK_SEVERITY CAUTION \<le> RISK_SEVERITY (fst (baseline b))
                \<or> list_ex (\<lambda>r. RISK_SEVERITY CAUTION \<le> RISK_SEVERITY (r_tier r))
                     (adapter_results (adapters (risk_classifier tr)) ?c (sentiment_score ?c))"
    by (auto simp: list_ex_iff)
  show ?thesis using k m bd t by blast
qed

text \<open>The theorem at a tracker whose adapter answers CAUTION.\<close>

theorem C5_witness:
  "set (set_iter example_runtime CAUTION_KEYWORDS) = set CAUTION_KEYWORDS
   \<and> \<not> isl (snd (append_message example_runtime tracker_caution fresh_storage ''s1'' USER
                   ''I feel hopeless and empty'' 1 1))
   \<and> rag_assess example_runtime (risk_classifier tracker_caution) ''I feel hopeless and empty''
       = Inr (None, [''RAG risk module unavailable.''])
   \<and> ''hopeless'' \<in> set (r_flagged_keywords (mar_risk (projr (snd
        (append_message example_runtime tracker_caution fresh_storage ''s1'' USER
           ''I feel hopeless and empty'' 1 1)))))
   \<and> ''empty'' \<in> set (r_flagged_keywords (mar_risk (projr (snd
        (append_message example_runtime tracker_caution fresh_storage ''s1'' USER
           ''I feel hopeless and empty'' 1 1)))))
   \<and> RISK_SEVERITY CAUTION \<le> RISK_SEVERITY (r_tier (mar_risk (projr (snd
        (append_message example_runtime tracker_caution fresh_storage ''s1'' USER
           ''I feel hopeless and empty'' 1 1)))))"
proof -
  let ?A = "append_message example_runtime tracker_caution fresh_storage ''s1'' USER
              ''I feel hopeless and empty'' 1 1"
  have h1: "set (set_iter example_runtime CAUTION_KEYWORDS) = set CAUTION_KEYWORDS"
    by (simp add: example_runtime_def)
  have ni: "\<not> isl (snd ?A)" by code_simp
  then have h2: "?A = (fst ?A, Inr (projr (snd ?A)))"
    by (simp add: prod_eq_iff)
  have h3: "rag_assess example_runtime (risk_classifier tracker_caution)
      ''I feel hopeless and empty'' = Inr (None, [''RAG risk module unavailable.''])"
    by code_simp
  have ex: "list_ex (\<lambda>r. RISK_SEVERITY CAUTION \<le> RISK_SEVERITY (r_tier r))
       (adapter_results (adapters (risk_classifier tracker_caution))
          ''I feel hopeless and empty'' (sentiment_score ''I feel hopeless and empty''))"
    by code_simp
  from C5_hopeless_and_empty [OF h1 h2 h3] ex h1 ni h3 show ?thesis by blast
qed

text \<open>With no external model and no adapter the tier of that message is OK.\<close>

theorem C5_tier_counterexample:
  "map_sum id (\<lambda>r. (r_tier (mar_risk r), r_flagged_keywords (mar_risk r)))
     (snd (append_message example_runtime tracker_plain fresh_storage ''s1'' USER
             ''I feel hopeless and empty'' 1 1))
     = Inr (OK, [''empty'', ''hopeless''])
   \<and> \<not> RISK_SEVERITY CAUTION \<le> RISK_SEVERITY OK"
  by code_simp

end
